theory Spec2Isabelle
  imports Complex_Main
begin

section \<open>JavaScript numbers\<close>

text \<open>
  The pricing engine (class \<open>FinancialService\<close>) computes with JavaScript numbers.
  A number is modelled as an exact real, or one of the three non-finite values the
  source can produce from finite arguments (\<open>Infinity\<close>, \<open>-Infinity\<close>, \<open>NaN\<close>).
  The arithmetic below follows IEEE 754 on the non-finite values and is exact on the
  finite ones: rounding, overflow, underflow and the sign of zero are not modelled
  (a zero divisor counts as \<open>+0\<close>).
\<close>

datatype jsnum = Fin real | PosInf | NegInf | NaN

instantiation jsnum :: "{plus, minus, uminus, times, inverse, ord}"
begin

fun uminus_jsnum :: "jsnum \<Rightarrow> jsnum" where
  "uminus_jsnum (Fin x) = Fin (- x)"
| "uminus_jsnum PosInf = NegInf"
| "uminus_jsnum NegInf = PosInf"
| "uminus_jsnum NaN = NaN"

fun plus_jsnum :: "jsnum \<Rightarrow> jsnum \<Rightarrow> jsnum" where
  "plus_jsnum NaN b = NaN"
| "plus_jsnum a NaN = NaN"
| "plus_jsnum (Fin x) (Fin y) = Fin (x + y)"
| "plus_jsnum (Fin x) b = b"
| "plus_jsnum a (Fin y) = a"
| "plus_jsnum PosInf PosInf = PosInf"
| "plus_jsnum NegInf NegInf = NegInf"
| "plus_jsnum PosInf NegInf = NaN"
| "plus_jsnum NegInf PosInf = NaN"

definition minus_jsnum :: "jsnum \<Rightarrow> jsnum \<Rightarrow> jsnum" where
  "minus_jsnum a b = a + (- b)"

text \<open>Sign of a non-NaN number as the product and quotient rules need it.\<close>

fun times_jsnum :: "jsnum \<Rightarrow> jsnum \<Rightarrow> jsnum" where
  "times_jsnum NaN b = NaN"
| "times_jsnum a NaN = NaN"
| "times_jsnum (Fin x) (Fin y) = Fin (x * y)"
| "times_jsnum (Fin x) PosInf = (if x = 0 then NaN else if 0 < x then PosInf else NegInf)"
| "times_jsnum (Fin x) NegInf = (if x = 0 then NaN else if 0 < x then NegInf else PosInf)"
| "times_jsnum PosInf (Fin y) = (if y = 0 then NaN else if 0 < y then PosInf else NegInf)"
| "times_jsnum NegInf (Fin y) = (if y = 0 then NaN else if 0 < y then NegInf else PosInf)"
| "times_jsnum PosInf PosInf = PosInf"
| "times_jsnum NegInf NegInf = PosInf"
| "times_jsnum PosInf NegInf = NegInf"
| "times_jsnum NegInf PosInf = NegInf"

fun divide_jsnum :: "jsnum \<Rightarrow> jsnum \<Rightarrow> jsnum" where
  "divide_jsnum NaN b = NaN"
| "divide_jsnum a NaN = NaN"
| "divide_jsnum (Fin x) (Fin y) =
     (if y = 0 then (if x = 0 then NaN else if 0 < x then PosInf else NegInf)
      else Fin (x / y))"
| "divide_jsnum (Fin x) b = Fin 0"
| "divide_jsnum PosInf (Fin y) = (if 0 \<le> y then PosInf else NegInf)"
| "divide_jsnum NegInf (Fin y) = (if 0 \<le> y then NegInf else PosInf)"
| "divide_jsnum a b = NaN"

definition inverse_jsnum :: "jsnum \<Rightarrow> jsnum" where
  "inverse_jsnum a = divide (Fin 1) a"

fun less_jsnum :: "jsnum \<Rightarrow> jsnum \<Rightarrow> bool" where
  "less_jsnum NaN b = False"
| "less_jsnum a NaN = False"
| "less_jsnum (Fin x) (Fin y) = (x < y)"
| "less_jsnum a PosInf = (a \<noteq> PosInf)"
| "less_jsnum NegInf b = (b \<noteq> NegInf)"
| "less_jsnum a b = False"

fun less_eq_jsnum :: "jsnum \<Rightarrow> jsnum \<Rightarrow> bool" where
  "less_eq_jsnum NaN b = False"
| "less_eq_jsnum a NaN = False"
| "less_eq_jsnum (Fin x) (Fin y) = (x \<le> y)"
| "less_eq_jsnum a PosInf = True"
| "less_eq_jsnum NegInf b = True"
| "less_eq_jsnum a b = False"

instance ..

end

text \<open>The strict equality \<open>===\<close> on numbers: \<open>NaN\<close> equals nothing.\<close>

definition strict_eq :: "jsnum \<Rightarrow> jsnum \<Rightarrow> bool" where
  "strict_eq a b = (a = b \<and> a \<noteq> NaN)"

fun isFinite :: "jsnum \<Rightarrow> bool" where
  "isFinite (Fin x) = True"
| "isFinite a = False"

fun Math_abs :: "jsnum \<Rightarrow> jsnum" where
  "Math_abs (Fin x) = Fin \<bar>x\<bar>"
| "Math_abs NaN = NaN"
| "Math_abs a = PosInf"

fun Math_sqrt :: "jsnum \<Rightarrow> jsnum" where
  "Math_sqrt (Fin x) = (if x < 0 then NaN else Fin (sqrt x))"
| "Math_sqrt PosInf = PosInf"
| "Math_sqrt a = NaN"

fun Math_log :: "jsnum \<Rightarrow> jsnum" where
  "Math_log (Fin x) = (if x < 0 then NaN else if x = 0 then NegInf else Fin (ln x))"
| "Math_log PosInf = PosInf"
| "Math_log a = NaN"

fun Math_exp :: "jsnum \<Rightarrow> jsnum" where
  "Math_exp (Fin x) = Fin (exp x)"
| "Math_exp PosInf = PosInf"
| "Math_exp NegInf = Fin 0"
| "Math_exp NaN = NaN"

text \<open>\<open>Math.pow\<close> with a (small, non-negative) integer exponent, the only use in the source.\<close>

fun Math_pow :: "jsnum \<Rightarrow> nat \<Rightarrow> jsnum" where
  "Math_pow a 0 = Fin 1"
| "Math_pow (Fin x) n = Fin (x ^ n)"
| "Math_pow PosInf n = PosInf"
| "Math_pow NegInf n = (if even n then PosInf else NegInf)"
| "Math_pow NaN n = NaN"

fun Math_max :: "jsnum \<Rightarrow> jsnum \<Rightarrow> jsnum" where
  "Math_max NaN b = NaN"
| "Math_max a NaN = NaN"
| "Math_max a b = (if a \<le> b then b else a)"

text \<open>\<open>Math.round\<close> rounds to the nearest integer, halves towards \<open>+Infinity\<close>.\<close>

fun Math_round :: "jsnum \<Rightarrow> jsnum" where
  "Math_round (Fin x) = Fin (of_int \<lfloor>x + 1 / 2\<rfloor>)"
| "Math_round a = a"

section \<open>Data model\<close>

datatype OptionType = Call | Put

record Greeks =
  delta :: jsnum
  gamma :: jsnum
  vega :: jsnum
  theta :: jsnum
  rho :: jsnum

record bsm_result =
  price :: jsnum
  greeks :: Greeks
  d1 :: jsnum
  d2 :: jsnum

section \<open>Mathematical utilities\<close>

text \<open>Error function approximation (Abramowitz and Stegun 7.1.26).\<close>

definition erf :: "jsnum \<Rightarrow> jsnum" where
  "erf x0 =
    (let a1 = Fin 0.254829592;
         a2 = Fin (- 0.284496736);
         a3 = Fin 1.421413741;
         a4 = Fin (- 1.453152027);
         a5 = Fin 1.061405429;
         p = Fin 0.3275911;
         sign = (if Fin 0 \<le> x0 then Fin 1 else Fin (- 1));
         x = Math_abs x0;
         t = Fin 1 / (Fin 1 + p * x);
         y = Fin 1 - (((((a5 * t + a4) * t) + a3) * t + a2) * t + a1) * t * Math_exp (- x * x)
     in sign * y)"

definition normCdf :: "jsnum \<Rightarrow> jsnum" where
  "normCdf x = Fin 0.5 * (Fin 1 + erf (x / Math_sqrt (Fin 2)))"

definition normPdf :: "jsnum \<Rightarrow> jsnum" where
  "normPdf x = (Fin 1 / Math_sqrt (Fin 2 * Fin pi)) * Math_exp (Fin (- 0.5) * x * x)"

section \<open>Black-Scholes-Merton price and Greeks\<close>

definition bsm :: "jsnum \<Rightarrow> jsnum \<Rightarrow> jsnum \<Rightarrow> jsnum \<Rightarrow> jsnum \<Rightarrow> OptionType \<Rightarrow> bsm_result" where
  "bsm S K T sigma r optionType =
    (if T \<le> Fin 0 \<or> sigma \<le> Fin 0 then
       (let fallbackPrice =
              (if optionType = Call then Math_max (Fin 0) (S - K) else Math_max (Fin 0) (K - S));
            fallbackGreeks =
              \<lparr>delta = (if optionType = Call then (if K < S then Fin 1 else Fin 0)
                        else (if S < K then Fin (- 1) else Fin 0)),
               gamma = Fin 0, vega = Fin 0, theta = Fin 0, rho = Fin 0\<rparr>
        in \<lparr>price = fallbackPrice, greeks = fallbackGreeks, d1 = PosInf, d2 = PosInf\<rparr>)
     else
       (let d1 = (Math_log (S / K) + (r + Fin 0.5 * sigma * sigma) * T) / (sigma * Math_sqrt T);
            d2 = d1 - sigma * Math_sqrt T;
            N_d1 = normCdf d1;
            N_d2 = normCdf d2;
            N_minus_d1 = normCdf (- d1);
            N_minus_d2 = normCdf (- d2);
            N_prime_d1 = normPdf d1;
            gamma = N_prime_d1 / (S * sigma * Math_sqrt T);
            vega = S * N_prime_d1 * Math_sqrt T
        in if optionType = Call then
             \<lparr>price = S * N_d1 - K * Math_exp (- r * T) * N_d2,
              greeks = \<lparr>delta = N_d1, gamma = gamma, vega = vega,
                theta = - (S * N_prime_d1 * sigma) / (Fin 2 * Math_sqrt T)
                          - r * K * Math_exp (- r * T) * N_d2,
                rho = K * T * Math_exp (- r * T) * N_d2\<rparr>,
              d1 = d1, d2 = d2\<rparr>
           else
             \<lparr>price = K * Math_exp (- r * T) * N_minus_d2 - S * N_minus_d1,
              greeks = \<lparr>delta = N_d1 - Fin 1.0, gamma = gamma, vega = vega,
                theta = - (S * N_prime_d1 * sigma) / (Fin 2 * Math_sqrt T)
                          + r * K * Math_exp (- r * T) * N_minus_d2,
                rho = - K * T * Math_exp (- r * T) * N_minus_d2\<rparr>,
              d1 = d1, d2 = d2\<rparr>))"

section \<open>Options, portfolios and chains\<close>

text \<open>
  The interfaces of \<open>types.ts\<close>. The string fields (\<open>id\<close> of an option, \<open>message\<close>
  of a hedge suggestion) are number formatting and are left out.
\<close>

record Option =
  strike :: jsnum
  maturity :: jsnum
  type :: OptionType
  bsmPrice :: jsnum
  iv :: jsnum
  greeks :: Greeks
  d1 :: jsnum
  d2 :: jsnum
  bsmPriceHistVol :: jsnum
  greeksHistVol :: Greeks

datatype Action = Buy | Sell

record GammaHedgeSuggestion =
  action :: Action
  quantity :: jsnum
  option :: Option

record PortfolioPosition =
  option :: Option
  quantity :: jsnum

text \<open>The dates of a configuration play no part in the calculations.\<close>

record Config =
  riskFreeRate :: jsnum
  lotSize :: jsnum

record SummaryStats =
  dailyLogReturns :: "jsnum list"
  annualizedVolatility :: jsnum
  skewness :: jsnum
  kurtosis :: jsnum

record VaRResult =
  parametric95 :: jsnum
  parametric99 :: jsnum
  historical95 :: jsnum
  historical99 :: jsnum

text \<open>
  The label of a scenario is \<open>(change * 100).toFixed(0)\<close> followed by a percent sign; the
  record keeps the shock \<open>change\<close> itself.
\<close>

record PnLScenario =
  scenario :: real
  pnlUnhedged :: jsnum
  pnlDeltaHedged :: jsnum

text \<open>
  An option chain is an object keyed by maturity; it is kept as the list of its
  properties in enumeration order, which for integer keys is ascending.
\<close>

type_synonym OptionChain = "(nat \<times> Option list) list"

definition Object_values :: "OptionChain \<Rightarrow> Option list list" where
  "Object_values chain = map snd chain"

subsection \<open>Arrays\<close>

text \<open>
  \<open>Array.prototype.sort\<close> with a comparator is stable; it is modelled as the stable
  insertion sort that the comparator drives, a \<open>NaN\<close> from the comparator counting
  as 0. Every stable sort agrees with it when the comparator is consistent.
\<close>

fun sort_insert :: "('a \<Rightarrow> 'a \<Rightarrow> jsnum) \<Rightarrow> 'a \<Rightarrow> 'a list \<Rightarrow> 'a list" where
  "sort_insert cmp x [] = [x]"
| "sort_insert cmp x (y # ys) =
     (if Fin 0 < cmp x y then y # sort_insert cmp x ys else x # y # ys)"

definition Array_sort :: "('a \<Rightarrow> 'a \<Rightarrow> jsnum) \<Rightarrow> 'a list \<Rightarrow> 'a list" where
  "Array_sort cmp xs = foldr (sort_insert cmp) xs []"

definition pop :: "'a list \<Rightarrow> 'a option" where
  "pop xs = (if xs = [] then None else Some (last xs))"

text \<open>
  Reading an array of numbers at an index: out of range the read is \<open>undefined\<close>, which
  arithmetic turns into \<open>NaN\<close>.
\<close>

definition at_index :: "jsnum list \<Rightarrow> nat \<Rightarrow> jsnum" where
  "at_index xs i = (if i < length xs then xs ! i else NaN)"

text \<open>
  \<open>[...new Set(xs)]\<close>: the elements of \<open>xs\<close> in the order of their first occurrence,
  each once.
\<close>

definition Set_values :: "'a list \<Rightarrow> 'a list" where
  "Set_values xs = foldl (\<lambda>acc x. if x \<in> set acc then acc else acc @ [x]) [] xs"

section \<open>Summary statistics\<close>

definition calculateSummaryStatistics :: "jsnum list \<Rightarrow> SummaryStats" where
  "calculateSummaryStatistics prices =
     (let returns = map (\<lambda>(p, prev). Math_log (p / prev)) (zip (drop 1 prices) prices);
          n = length returns
      in if n < 2 then
           \<lparr>dailyLogReturns = [], annualizedVolatility = Fin 0, skewness = Fin 0,
            kurtosis = Fin 0\<rparr>
         else
           (let mean = foldl (\<lambda>sum r. sum + r) (Fin 0) returns / Fin (real n);
                stdDev = Math_sqrt (foldl (\<lambda>sum r. sum + Math_pow (r - mean) 2) (Fin 0) returns
                                     / (Fin (real n) - Fin 1));
                annualizedVolatility = stdDev * Math_sqrt (Fin 252);
                m3 = foldl (\<lambda>sum r. sum + Math_pow (r - mean) 3) (Fin 0) returns / Fin (real n);
                skewness = m3 / Math_pow stdDev 3;
                m4 = foldl (\<lambda>sum r. sum + Math_pow (r - mean) 4) (Fin 0) returns / Fin (real n);
                kurtosis = m4 / Math_pow stdDev 4 - Fin 3
            in \<lparr>dailyLogReturns = returns, annualizedVolatility = annualizedVolatility,
                skewness = skewness, kurtosis = kurtosis\<rparr>))"

section \<open>Chain generator\<close>

definition generateOptionChain :: "jsnum \<Rightarrow> jsnum \<Rightarrow> jsnum \<Rightarrow> jsnum list \<Rightarrow> OptionChain" where
  "generateOptionChain currentPrice histVolatility risk_free_rate existingStrikes =
     (let maturities = [30, 60, 90];
          strikeMultipliers = [Fin 0.95, Fin 0.98, Fin 1, Fin 1.02, Fin 1.05];
          generatedStrikes = map (\<lambda>m. Math_round (currentPrice * m)) strikeMultipliers;
          strikes = Array_sort (\<lambda>a b. a - b) (Set_values (generatedStrikes @ existingStrikes));
          r = risk_free_rate / Fin 100
      in map (\<lambda>maturity.
            (maturity,
             concat (map (\<lambda>strike.
               let moneyness = Math_log (strike / currentPrice);
                   iv = histVolatility * (Fin 1 + Fin 0.2 * Math_pow moneyness 2 - Fin 0.1 * moneyness)
               in map (\<lambda>type.
                    let T = Fin (real maturity) / Fin 252;
                        byIV = bsm currentPrice strike T iv r type;
                        byHistVol = bsm currentPrice strike T histVolatility r type
                    in \<lparr>strike = strike, maturity = Fin (real maturity), type = type,
                        bsmPrice = price byIV, iv = iv, greeks = bsm_result.greeks byIV,
                        d1 = bsm_result.d1 byIV, d2 = bsm_result.d2 byIV,
                        bsmPriceHistVol = price byHistVol,
                        greeksHistVol = bsm_result.greeks byHistVol\<rparr>)
                  [Call, Put])
               strikes)))
          maturities)"

section \<open>Portfolio aggregation and hedging\<close>

definition calculatePortfolioGreeks :: "PortfolioPosition list \<Rightarrow> Greeks" where
  "calculatePortfolioGreeks portfolio =
     foldl (\<lambda>acc pos.
        \<lparr>delta = delta acc + quantity pos * delta (greeks (option pos)),
         gamma = gamma acc + quantity pos * gamma (greeks (option pos)),
         vega = vega acc + quantity pos * vega (greeks (option pos)),
         theta = theta acc + quantity pos * theta (greeks (option pos)),
         rho = rho acc + quantity pos * rho (greeks (option pos))\<rparr>)
       \<lparr>delta = Fin 0, gamma = Fin 0, vega = Fin 0, theta = Fin 0, rho = Fin 0\<rparr>
       portfolio"

definition calculatePortfolioValue :: "PortfolioPosition list \<Rightarrow> jsnum \<Rightarrow> jsnum" where
  "calculatePortfolioValue portfolio lot_size =
     foldl (\<lambda>totalValue position.
              totalValue + quantity position * bsmPrice (option position) * lot_size)
       (Fin 0) portfolio"

definition calculatePortfolioVaR ::
  "PortfolioPosition list \<Rightarrow> jsnum list \<Rightarrow> Config \<Rightarrow> VaRResult" where
  "calculatePortfolioVaR portfolio stockPrices config =
     (if length portfolio = 0 \<or> length stockPrices < 2 then
        \<lparr>parametric95 = Fin 0, parametric99 = Fin 0, historical95 = Fin 0, historical99 = Fin 0\<rparr>
      else
        let pvSeries =
              map (\<lambda>S_t.
                foldl (\<lambda>totalValue pos.
                   let T = maturity (option pos) / Fin 252.0;
                       r = riskFreeRate config / Fin 100;
                       repriced = bsm S_t (strike (option pos)) T (iv (option pos)) r
                                    (type (option pos))
                   in totalValue + quantity pos * price repriced * lotSize config)
                 (Fin 0) portfolio)
              stockPrices;
            pvReturns =
              filter isFinite
                (map (\<lambda>(p, prev). (p - prev) / prev) (zip (drop 1 pvSeries) pvSeries))
        in if length pvReturns < 2 then
             \<lparr>parametric95 = Fin 0, parametric99 = Fin 0, historical95 = Fin 0,
              historical99 = Fin 0\<rparr>
           else
             let lastPortfolioValue = at_index pvSeries (length pvSeries - 1);
                 n = Fin (real (length pvReturns));
                 returnsMean = foldl (\<lambda>s r. s + r) (Fin 0) pvReturns / n;
                 returnsStd =
                   Math_sqrt (foldl (\<lambda>s r. s + Math_pow (r - returnsMean) 2) (Fin 0) pvReturns
                                / (n - Fin 1));
                 parametric95 = - (returnsMean + normCdf (Fin 0.05) * returnsStd) * lastPortfolioValue;
                 parametric99 = - (returnsMean + normCdf (Fin 0.01) * returnsStd) * lastPortfolioValue;
                 sorted = Array_sort (\<lambda>a b. a - b) pvReturns;
                 historical95 =
                   - at_index sorted (nat \<lfloor>0.05 * real (length pvReturns)\<rfloor>) * lastPortfolioValue;
                 historical99 =
                   - at_index sorted (nat \<lfloor>0.01 * real (length pvReturns)\<rfloor>) * lastPortfolioValue
             in \<lparr>parametric95 = parametric95, parametric99 = parametric99,
                 historical95 = historical95, historical99 = historical99\<rparr>)"

definition hedgePortfolio :: "PortfolioPosition list \<Rightarrow> jsnum \<Rightarrow> jsnum" where
  "hedgePortfolio portfolio lot_size =
     (let portfolioGreeks = calculatePortfolioGreeks portfolio;
          sharesToHedge = - delta portfolioGreeks * lot_size
      in sharesToHedge)"

definition calculateGammaHedge ::
  "PortfolioPosition list \<Rightarrow> OptionChain \<Rightarrow> GammaHedgeSuggestion option" where
  "calculateGammaHedge portfolio optionChain =
     (if length portfolio = 0 then None
      else
        let portfolioGreeks = calculatePortfolioGreeks portfolio in
        if Math_abs (gamma portfolioGreeks) < Fin (1 / 10 ^ 6) then None
        else
          let allOptions = concat (Object_values optionChain);
              atmOption =
                pop (Array_sort
                       (\<lambda>a b. Math_abs (gamma (greeks a)) - Math_abs (gamma (greeks b)))
                       (filter (\<lambda>opt. strict_eq (maturity opt) (Fin 30)) allOptions))
          in case atmOption of
               None \<Rightarrow> None
             | Some atmOption \<Rightarrow>
                 let quantity = - gamma portfolioGreeks / gamma (greeks atmOption);
                     action = (if Fin 0 < quantity then Buy else Sell)
                 in Some \<lparr>action = action,
                          GammaHedgeSuggestion.quantity = Math_abs (Math_round quantity),
                          GammaHedgeSuggestion.option = atmOption\<rparr>)"

section \<open>Scenario engine\<close>

definition calculatePnLScenarios ::
  "PortfolioPosition list \<Rightarrow> jsnum \<Rightarrow> Config \<Rightarrow> PnLScenario list" where
  "calculatePnLScenarios portfolio lastPrice config =
     (let scenarios = [- 0.02, - 0.01, 0.0, 0.01, 0.02];
          r = riskFreeRate config / Fin 100;
          currentValue =
            foldl (\<lambda>sum pos. sum + quantity pos * bsmPrice (option pos)) (Fin 0) portfolio;
          deltaHedgeShares = hedgePortfolio portfolio (Fin 1)
      in map (\<lambda>change.
            let newPrice = lastPrice * (Fin 1 + Fin change);
                newValue =
                  foldl (\<lambda>sum pos.
                     let T = maturity (option pos) / Fin 252.0;
                         repriced = bsm newPrice (strike (option pos)) T (iv (option pos)) r
                                      (type (option pos))
                     in sum + quantity pos * price repriced)
                   (Fin 0) portfolio;
                pnlUnhedged = (newValue - currentValue) * lotSize config;
                hedgePnL = deltaHedgeShares * (newPrice - lastPrice);
                pnlDeltaHedged = pnlUnhedged + hedgePnL
            in \<lparr>scenario = change, pnlUnhedged = pnlUnhedged, pnlDeltaHedged = pnlDeltaHedged\<rparr>)
          scenarios)"

section \<open>The formulas on finite arguments\<close>

text \<open>
  On finite arguments the functions above compute the following real expressions
  (lemmas \<open>erf_Fin\<close>, \<open>normCdf_Fin\<close>, \<open>normPdf_Fin\<close> and \<open>bsm_analytic\<close> below).
  \<open>erf_poly\<close> is the polynomial of the approximation in Horner form, as the source
  evaluates it.
\<close>

definition erf_poly :: "real \<Rightarrow> real" where
  "erf_poly t = (((((1.061405429 * t + (- 1.453152027)) * t) + 1.421413741) * t
                  + (- 0.284496736)) * t + 0.254829592) * t"

definition erf_real :: "real \<Rightarrow> real" where
  "erf_real x = (if 0 \<le> x then 1 else - 1)
                 * (1 - erf_poly (1 / (1 + 0.3275911 * \<bar>x\<bar>)) * exp (- \<bar>x\<bar> * \<bar>x\<bar>))"

definition normCdf_real :: "real \<Rightarrow> real" where
  "normCdf_real x = 0.5 * (1 + erf_real (x / sqrt 2))"

definition normPdf_real :: "real \<Rightarrow> real" where
  "normPdf_real x = (1 / sqrt (2 * pi)) * exp (- 0.5 * x * x)"

definition d1_real :: "real \<Rightarrow> real \<Rightarrow> real \<Rightarrow> real \<Rightarrow> real \<Rightarrow> real" where
  "d1_real S K T sigma r = (ln (S / K) + (r + 0.5 * sigma * sigma) * T) / (sigma * sqrt T)"

definition d2_real :: "real \<Rightarrow> real \<Rightarrow> real \<Rightarrow> real \<Rightarrow> real \<Rightarrow> real" where
  "d2_real S K T sigma r = d1_real S K T sigma r - sigma * sqrt T"

section \<open>Reference formulas\<close>

text \<open>
  The quantities the specification names, written as sums over lists rather than as the
  \<open>reduce\<close> loops of the source. \<open>jsum\<close> is the sum of a list of numbers.
\<close>

definition jsum :: "jsnum list \<Rightarrow> jsnum" where
  "jsum xs = foldr (+) xs (Fin 0)"

text \<open>
  The price of the option of a position at spot \<open>S\<close>, with the option's own implied
  volatility and maturity and the rate (in percent) of the configuration.
\<close>

definition position_price :: "jsnum \<Rightarrow> jsnum \<Rightarrow> PortfolioPosition \<Rightarrow> jsnum" where
  "position_price rate S pos =
     price (bsm S (strike (option pos)) (maturity (option pos) / Fin 252) (iv (option pos))
              (rate / Fin 100) (type (option pos)))"

definition portfolio_value_at :: "Config \<Rightarrow> PortfolioPosition list \<Rightarrow> jsnum \<Rightarrow> jsnum" where
  "portfolio_value_at config portfolio S =
     jsum (map (\<lambda>pos. quantity pos * position_price (riskFreeRate config) S pos * lotSize config)
             portfolio)"

definition value_series :: "Config \<Rightarrow> PortfolioPosition list \<Rightarrow> jsnum list \<Rightarrow> jsnum list" where
  "value_series config portfolio prices = map (portfolio_value_at config portfolio) prices"

definition simple_returns :: "jsnum list \<Rightarrow> jsnum list" where
  "simple_returns vs = map (\<lambda>(v, prev). (v - prev) / prev) (zip (tl vs) vs)"

fun finite_values :: "jsnum list \<Rightarrow> real list" where
  "finite_values [] = []"
| "finite_values (Fin x # xs) = x # finite_values xs"
| "finite_values (a # xs) = finite_values xs"

text \<open>
  The current mark of a portfolio, its value repriced at a spot (both per unit of lot
  size), and its delta.
\<close>

definition current_mark :: "PortfolioPosition list \<Rightarrow> jsnum" where
  "current_mark portfolio = jsum (map (\<lambda>pos. quantity pos * bsmPrice (option pos)) portfolio)"

definition repriced_value :: "jsnum \<Rightarrow> PortfolioPosition list \<Rightarrow> jsnum \<Rightarrow> jsnum" where
  "repriced_value rate portfolio S =
     jsum (map (\<lambda>pos. quantity pos * position_price rate S pos) portfolio)"

definition portfolio_delta :: "PortfolioPosition list \<Rightarrow> jsnum" where
  "portfolio_delta portfolio =
     jsum (map (\<lambda>pos. quantity pos * delta (greeks (option pos))) portfolio)"

text \<open>The finite simple returns of the repriced portfolio-value series.\<close>

definition valid_returns :: "Config \<Rightarrow> PortfolioPosition list \<Rightarrow> jsnum list \<Rightarrow> real list" where
  "valid_returns config portfolio prices =
     finite_values (simple_returns (value_series config portfolio prices))"

definition sample_mean :: "real list \<Rightarrow> real" where
  "sample_mean rs = sum_list rs / real (length rs)"

definition sample_std :: "real list \<Rightarrow> real" where
  "sample_std rs =
     sqrt (sum_list (map (\<lambda>r. (r - sample_mean rs) ^ 2) rs) / (real (length rs) - 1))"

section \<open>Example inputs\<close>

text \<open>A chain option with the given strike, maturity and gamma, for the worked examples.\<close>

definition example_option :: "real \<Rightarrow> real \<Rightarrow> real \<Rightarrow> Option" where
  "example_option k m g =
     \<lparr>strike = Fin k, maturity = Fin m, type = Call, bsmPrice = Fin 1, iv = Fin (1 / 5),
      greeks = \<lparr>delta = Fin (1 / 2), gamma = Fin g, vega = Fin 0, theta = Fin 0, rho = Fin 0\<rparr>,
      d1 = Fin 0, d2 = Fin 0, bsmPriceHistVol = Fin 1,
      greeksHistVol = \<lparr>delta = Fin (1 / 2), gamma = Fin g, vega = Fin 0, theta = Fin 0, rho = Fin 0\<rparr>\<rparr>"

text \<open>A position in the underlying itself, as the hedged value at risk builds it.\<close>

definition stock_position :: "real \<Rightarrow> PortfolioPosition" where
  "stock_position q =
     \<lparr>option =
        \<lparr>strike = Fin 0, maturity = Fin 0, type = Call, bsmPrice = Fin 1, iv = Fin 0,
         greeks = \<lparr>delta = Fin 1, gamma = Fin 0, vega = Fin 0, theta = Fin 0, rho = Fin 0\<rparr>,
         d1 = Fin 0, d2 = Fin 0, bsmPriceHistVol = Fin 1,
         greeksHistVol = \<lparr>delta = Fin 1, gamma = Fin 0, vega = Fin 0, theta = Fin 0, rho = Fin 0\<rparr>\<rparr>,
      quantity = Fin q\<rparr>"

section \<open>Properties\<close>

subsection \<open>Comparison of numbers\<close>

lemma jsnum_total: "a \<noteq> NaN \<Longrightarrow> b \<noteq> NaN \<Longrightarrow> (a::jsnum) \<le> b \<or> b < a"
  by (cases a; cases b) auto

lemma jsnum_le_trans: "(a::jsnum) \<le> b \<Longrightarrow> b \<le> c \<Longrightarrow> a \<le> c"
  by (cases a; cases b; cases c) auto

lemma jsnum_less_imp_le: "(a::jsnum) < b \<Longrightarrow> a \<le> b"
  by (cases a; cases b) auto

lemma jsnum_le_refl: "a \<noteq> NaN \<Longrightarrow> (a::jsnum) \<le> a"
  by (cases a) auto

lemma cmp_diff_pos: "a \<noteq> NaN \<Longrightarrow> b \<noteq> NaN \<Longrightarrow> Fin 0 < a - b \<longleftrightarrow> b < (a::jsnum)"
  by (cases a; cases b) (auto simp: minus_jsnum_def)

lemma Math_abs_NaN: "Math_abs a = NaN \<longleftrightarrow> a = NaN"
  by (cases a) auto

subsection \<open>The stable sort\<close>

lemma set_sort_insert: "set (sort_insert cmp x ys) = insert x (set ys)"
  by (induction ys) auto

lemma sort_insert_not_Nil: "sort_insert cmp x ys \<noteq> []"
  by (cases ys) auto

lemma set_Array_sort: "set (Array_sort cmp xs) = set xs"
  by (induction xs) (auto simp: Array_sort_def set_sort_insert)

lemma Array_sort_Nil_iff: "Array_sort cmp xs = [] \<longleftrightarrow> xs = []"
  by (cases xs) (auto simp: Array_sort_def sort_insert_not_Nil)

lemma last_sort_insert:
  "last (sort_insert cmp x ys) =
     (if \<forall>y \<in> set ys. Fin 0 < cmp x y then x else last ys)"
  by (induction ys) (auto simp: sort_insert_not_Nil)


lemma last_Array_sort_max:
  assumes "\<forall>opt \<in> set xs. key opt \<noteq> NaN" and "xs \<noteq> []"
  shows "\<exists>pre post. xs = pre @ last (Array_sort (\<lambda>a b. key a - key b) xs) # post \<and>
           (\<forall>opt \<in> set pre. key opt \<le> key (last (Array_sort (\<lambda>a b. key a - key b) xs))) \<and>
           (\<forall>opt \<in> set post. key opt < key (last (Array_sort (\<lambda>a b. key a - key b) xs)))"
  using assms
proof (induction xs)
  case Nil
  then show ?case by simp
next
  case (Cons x xs)
  let ?cmp = "\<lambda>a b. key a - key b"
  have step: "Array_sort ?cmp (x # xs) = sort_insert ?cmp x (Array_sort ?cmp xs)"
    by (simp add: Array_sort_def)
  have kx: "key x \<noteq> NaN" and kxs: "\<forall>opt \<in> set xs. key opt \<noteq> NaN"
    using Cons.prems by auto
  show ?case
  proof (cases "\<forall>y \<in> set xs. key y < key x")
    case True
    then have "last (Array_sort ?cmp (x # xs)) = x"
      using kx kxs by (simp add: step last_sort_insert set_Array_sort cmp_diff_pos)
    then show ?thesis using True by (intro exI [of _ "[]"] exI [of _ xs]) simp
  next
    case False
    then obtain y where y: "y \<in> set xs" "\<not> key y < key x" by blast
    then have ne: "xs \<noteq> []" by auto
    have "\<not> (\<forall>y \<in> set (Array_sort ?cmp xs). Fin 0 < ?cmp x y)"
      using y kx kxs by (auto simp: set_Array_sort cmp_diff_pos)
    then have l: "last (Array_sort ?cmp (x # xs)) = last (Array_sort ?cmp xs)"
      unfolding step last_sort_insert by (simp only: if_False)
    define r where "r = last (Array_sort ?cmp xs)"
    from Cons.IH [OF kxs ne, folded r_def] obtain pre post where
      pp: "xs = pre @ r # post"
        "\<forall>opt \<in> set pre. key opt \<le> key r"
        "\<forall>opt \<in> set post. key opt < key r"
      by (elim exE conjE)
    have yin: "y \<in> set pre \<or> y = r \<or> y \<in> set post"
      using y(1) unfolding pp(1) by auto
    have ky: "key y \<noteq> NaN" using y(1) kxs by blast
    have "key y \<le> key r"
    proof -
      consider "y \<in> set pre" | "y = r" | "y \<in> set post" using yin by blast
      then show ?thesis
      proof cases
        case 1
        then show ?thesis using pp(2) by blast
      next
        case 2
        then show ?thesis using ky by (simp add: jsnum_le_refl)
      next
        case 3
        then have "key y < key r" using pp(3) by blast
        then show ?thesis by (rule jsnum_less_imp_le)
      qed
    qed
    moreover have "key x \<le> key y"
      using jsnum_total [OF kx ky] y(2) by blast
    ultimately have xr: "key x \<le> key r" by (rule jsnum_le_trans [rotated])
    have e1: "x # xs = (x # pre) @ r # post" using pp(1) by simp
    have e2: "\<forall>opt \<in> set (x # pre). key opt \<le> key r" using pp(2) xr by simp
    have lr: "last (Array_sort ?cmp (x # xs)) = r" using l r_def by simp
    show ?thesis
      unfolding lr using e1 e2 pp(3) by (intro exI [of _ "x # pre"] exI [of _ post] conjI)
  qed
qed


lemma strict_eq_Fin: "strict_eq a (Fin x) \<longleftrightarrow> a = Fin x"
  by (auto simp: strict_eq_def)

lemma pop_None_iff: "pop xs = None \<longleftrightarrow> xs = []"
  by (simp add: pop_def)

lemma pop_Some_iff: "pop xs = Some x \<longleftrightarrow> xs \<noteq> [] \<and> x = last xs"
  by (auto simp: pop_def)


subsection \<open>The error function approximation and the pricer on finite arguments\<close>

lemma erf_Fin: "erf (Fin x) = Fin (erf_real x)"
  by (simp add: erf_def erf_real_def erf_poly_def Let_def minus_jsnum_def)

lemma normCdf_Fin: "normCdf (Fin x) = Fin (normCdf_real x)"
  by (simp add: normCdf_def normCdf_real_def erf_Fin)

lemma normPdf_Fin: "normPdf (Fin x) = Fin (normPdf_real x)"
  by (simp add: normPdf_def normPdf_real_def)

lemma erf_poly_quad:
  fixes t :: real
  assumes "0 \<le> t" "t \<le> 1"
  shows "0.9 \<le> 1.061405429 * (t * t) - 1.453152027 * t + 1.421413741"
proof -
  have "0 \<le> 1.061405429 * ((t - 0.6846) * (t - 0.6846))" by simp
  then have "0 \<le> 1.061405429 * (t * t) - 2 * 0.6846 * 1.061405429 * t
                   + 1.061405429 * 0.6846 * 0.6846"
    by (simp add: algebra_simps)
  then show ?thesis using assms by simp
qed

lemma erf_poly_bounds:
  fixes t :: real
  assumes "0 \<le> t" "t \<le> 1"
  shows "0 \<le> erf_poly t" and "erf_poly t \<le> 2"
proof -
  let ?m = "1.061405429 * (t * t) - 1.453152027 * t + 1.421413741"
  let ?p = "(t * t) * ?m - 0.284496736 * t + 0.254829592"
  have tt: "0 \<le> t * t" "t * t \<le> 1" "t * t \<le> t"
    using assms by (simp_all add: mult_le_one mult_left_le)
  have e: "erf_poly t = t * ?p" by (simp add: erf_poly_def algebra_simps)
  have m_lo: "0.9 \<le> ?m" using erf_poly_quad [OF assms] .
  have "1.061405429 * (t * t) \<le> 1.061405429 * t" using tt(3) by simp
  moreover have "1.061405429 * t \<le> 1.453152027 * t"
    using assms(1) by (intro mult_right_mono) simp_all
  ultimately have m_hi: "?m \<le> 1.421413741" by simp
  have "0.9 * (t * t) \<le> (t * t) * ?m"
    using mult_left_mono [OF m_lo tt(1)] by (simp add: mult.commute)
  moreover have "0 \<le> 0.9 * ((t - 0.158) * (t - 0.158))" by simp
  then have "0 \<le> 0.9 * (t * t) - 2 * 0.158 * 0.9 * t + 0.9 * 0.158 * 0.158"
    by (simp add: algebra_simps)
  ultimately have p_lo: "0 \<le> ?p" using assms by simp
  have "(t * t) * ?m \<le> 1 * 1.421413741"
    by (rule mult_mono [OF tt(2) m_hi]) (use tt m_lo in simp_all)
  then have p_hi: "?p \<le> 2" using assms by simp
  show "0 \<le> erf_poly t" unfolding e using assms(1) p_lo by (rule mult_nonneg_nonneg)
  have "t * ?p \<le> 1 * 2" by (rule mult_mono [OF assms(2) p_hi]) (use p_lo in simp_all)
  then show "erf_poly t \<le> 2" unfolding e by simp
qed

lemma erf_real_bounds: "- 1 \<le> erf_real x" "erf_real x \<le> 1"
proof -
  let ?t = "1 / (1 + 0.3275911 * \<bar>x\<bar>)"
  let ?E = "exp (- \<bar>x\<bar> * \<bar>x\<bar>)"
  have t: "0 \<le> ?t" "?t \<le> 1" by (simp_all add: divide_le_eq)
  have E: "0 \<le> ?E" "?E \<le> 1" by simp_all
  have q: "0 \<le> erf_poly ?t" "erf_poly ?t \<le> 2" using erf_poly_bounds [OF t] by simp_all
  have lo: "0 \<le> erf_poly ?t * ?E" using q(1) E(1) by (rule mult_nonneg_nonneg)
  have "erf_poly ?t * ?E \<le> 2 * 1" by (rule mult_mono [OF q(2) E(2)]) (use q E in simp_all)
  then have hi: "erf_poly ?t * ?E \<le> 2" by simp
  define Y where "Y = erf_poly ?t * ?E"
  have Y: "0 \<le> Y" "Y \<le> 2" using lo hi by (simp_all only: Y_def)
  have "erf_real x = (if 0 \<le> x then 1 else - 1) * (1 - Y)"
    unfolding erf_real_def Y_def ..
  then show "- 1 \<le> erf_real x" "erf_real x \<le> 1"
    using Y by (simp_all split: if_splits)
qed

lemma normCdf_real_bounds: "0 \<le> normCdf_real x" "normCdf_real x \<le> 1"
  using erf_real_bounds [of "x / sqrt 2"] by (simp_all add: normCdf_real_def)

lemma normPdf_real_nonneg: "0 \<le> normPdf_real x"
  by (simp add: normPdf_real_def)

lemma erf_real_zero: "erf_real 0 = 1 / 10 ^ 9"
  by (simp add: erf_real_def erf_poly_def)

lemma erf_real_odd: "x \<noteq> 0 \<Longrightarrow> erf_real (- x) = - erf_real x"
  by (simp add: erf_real_def)

lemma normCdf_real_reflect:
  "normCdf_real x + normCdf_real (- x) = (if x = 0 then 1 + 1 / 10 ^ 9 else 1)"
proof (cases "x = 0")
  case True
  then show ?thesis by (simp add: normCdf_real_def erf_real_zero)
next
  case False
  then have "x / sqrt 2 \<noteq> 0" by simp
  from erf_real_odd [OF this] False show ?thesis
    by (simp add: normCdf_real_def field_simps)
qed

lemma bsm_analytic:
  assumes "0 < S" "0 < K" "0 < T" "0 < sigma"
  shows "bsm (Fin S) (Fin K) (Fin T) (Fin sigma) (Fin r) ty =
    (let d1 = d1_real S K T sigma r; d2 = d2_real S K T sigma r;
         gamma = normPdf_real d1 / (S * sigma * sqrt T);
         vega = S * normPdf_real d1 * sqrt T
     in if ty = Call then
          \<lparr>price = Fin (S * normCdf_real d1 - K * exp (- r * T) * normCdf_real d2),
           bsm_result.greeks = \<lparr>delta = Fin (normCdf_real d1), gamma = Fin gamma, vega = Fin vega,
             theta = Fin (- (S * normPdf_real d1 * sigma) / (2 * sqrt T)
                          - r * K * exp (- r * T) * normCdf_real d2),
             rho = Fin (K * T * exp (- r * T) * normCdf_real d2)\<rparr>,
           bsm_result.d1 = Fin d1, bsm_result.d2 = Fin d2\<rparr>
        else
          \<lparr>price = Fin (K * exp (- r * T) * normCdf_real (- d2) - S * normCdf_real (- d1)),
           bsm_result.greeks = \<lparr>delta = Fin (normCdf_real d1 - 1), gamma = Fin gamma, vega = Fin vega,
             theta = Fin (- (S * normPdf_real d1 * sigma) / (2 * sqrt T)
                          + r * K * exp (- r * T) * normCdf_real (- d2)),
             rho = Fin (- K * T * exp (- r * T) * normCdf_real (- d2))\<rparr>,
           bsm_result.d1 = Fin d1, bsm_result.d2 = Fin d2\<rparr>)"
proof -
  have nz: "sigma * sqrt T \<noteq> 0" "S * sigma * sqrt T \<noteq> 0" "sqrt T \<noteq> 0"
    "\<not> S / K < 0" "S / K \<noteq> 0" "\<not> T < 0" "K \<noteq> 0"
    using assms by (simp_all add: not_less)
  have deg: "\<not> (Fin T \<le> Fin 0 \<or> Fin sigma \<le> Fin 0)" using assms by simp
  have pos: "sigma \<noteq> 0" "T \<noteq> 0" "S \<noteq> 0" using assms by simp_all
  show ?thesis
    unfolding bsm_def
    by (simp only: deg if_False Let_def)
       (simp add: nz pos normCdf_Fin normPdf_Fin minus_jsnum_def d1_real_def d2_real_def Let_def)
qed

lemma parity_gap:
  fixes S K T sigma r :: real
  assumes "0 < S" "0 < K" "0 < T" "0 < sigma"
  defines "c \<equiv> S * normCdf_real (d1_real S K T sigma r)
                 - K * exp (- r * T) * normCdf_real (d2_real S K T sigma r)"
    and "p \<equiv> K * exp (- r * T) * normCdf_real (- d2_real S K T sigma r)
                 - S * normCdf_real (- d1_real S K T sigma r)"
  shows "c - p - (S - K * exp (- r * T)) =
     (if d1_real S K T sigma r = 0 then S / 10 ^ 9
      else if d2_real S K T sigma r = 0 then - (K * exp (- r * T)) / 10 ^ 9 else 0)"
proof -
  let ?d1 = "d1_real S K T sigma r" and ?d2 = "d2_real S K T sigma r"
  have ne: "?d1 \<noteq> ?d2" using assms by (simp add: d2_real_def)
  have "c - p - (S - K * exp (- r * T)) =
      S * (normCdf_real ?d1 + normCdf_real (- ?d1) - 1)
      - K * exp (- r * T) * (normCdf_real ?d2 + normCdf_real (- ?d2) - 1)"
    by (simp add: c_def p_def algebra_simps)
  also have "\<dots> = (if ?d1 = 0 then S / 10 ^ 9
      else if ?d2 = 0 then - (K * exp (- r * T)) / 10 ^ 9 else 0)"
    using ne by (simp add: normCdf_real_reflect)
  finally show ?thesis .
qed

subsection \<open>The degenerate branch of the pricer\<close>

text \<open>
  C2. When \<open>T \<le> 0\<close> or \<open>sigma \<le> 0\<close>, for every \<open>S\<close> and \<open>K\<close>, \<open>bsm\<close> returns the
  intrinsic value (\<open>max(0, S - K)\<close> for a call, \<open>max(0, K - S)\<close> for a put), a delta of
  1 or 0 for a call (1 when \<open>S > K\<close>) and of -1 or 0 for a put (-1 when \<open>S < K\<close>),
  zero gamma, vega, theta and rho, and \<open>d1 = d2 = +Infinity\<close>.
\<close>

theorem bsm_degenerate:
  assumes "T \<le> Fin 0 \<or> sigma \<le> Fin 0"
  shows "price (bsm S K T sigma r Call) = Math_max (Fin 0) (S - K) \<and>
         price (bsm S K T sigma r Put) = Math_max (Fin 0) (K - S) \<and>
         delta (bsm_result.greeks (bsm S K T sigma r Call)) = (if K < S then Fin 1 else Fin 0) \<and>
         delta (bsm_result.greeks (bsm S K T sigma r Put)) = (if S < K then Fin (- 1) else Fin 0) \<and>
         (\<forall>ty. gamma (bsm_result.greeks (bsm S K T sigma r ty)) = Fin 0 \<and>
               vega (bsm_result.greeks (bsm S K T sigma r ty)) = Fin 0 \<and>
               theta (bsm_result.greeks (bsm S K T sigma r ty)) = Fin 0 \<and>
               rho (bsm_result.greeks (bsm S K T sigma r ty)) = Fin 0 \<and>
               bsm_result.d1 (bsm S K T sigma r ty) = PosInf \<and>
               bsm_result.d2 (bsm S K T sigma r ty) = PosInf)"
  using assms by (simp add: bsm_def Let_def)

theorem bsm_degenerate_witness:
  "(Fin 0 \<le> Fin 0 \<or> Fin (1 / 5) \<le> Fin 0) \<and>
   price (bsm (Fin 110) (Fin 100) (Fin 0) (Fin (1 / 5)) (Fin 0) Call) = Fin 10 \<and>
   price (bsm (Fin 110) (Fin 100) (Fin 0) (Fin (1 / 5)) (Fin 0) Put) = Fin 0 \<and>
   delta (bsm_result.greeks (bsm (Fin 110) (Fin 100) (Fin 0) (Fin (1 / 5)) (Fin 0) Call)) = Fin 1 \<and>
   delta (bsm_result.greeks (bsm (Fin 110) (Fin 100) (Fin 0) (Fin (1 / 5)) (Fin 0) Put)) = Fin 0 \<and>
   bsm_result.d1 (bsm (Fin 110) (Fin 100) (Fin 0) (Fin (1 / 5)) (Fin 0) Put) = PosInf"
  using bsm_degenerate [of "Fin 0" "Fin (1 / 5)" "Fin 110" "Fin 100" "Fin 0"]
  by (simp add: minus_jsnum_def)

subsection \<open>Put-call parity\<close>

text \<open>
  C1 (as amended). For \<open>S, K, T, sigma > 0\<close> and every rate \<open>r\<close>, both prices are
  finite and, in exact arithmetic, call minus put differs from \<open>S - K e^(-rT)\<close> by at most
  \<open>1e-9 max(S, K e^(-rT))\<close>; the two are equal when neither \<open>d1\<close> nor \<open>d2\<close> is 0, and
  within \<open>1e-6\<close> of each other when \<open>S \<le> 1000\<close> and \<open>K e^(-rT) \<le> 1000\<close>. The gap comes from
  the approximation's \<open>erf(0) = 1e-9\<close>, which makes \<open>N(0) + N(-0) = 1 + 1e-9\<close>.
\<close>

theorem put_call_parity:
  assumes "0 < S" "0 < K" "0 < T" "0 < sigma"
  shows "\<exists>c p. price (bsm (Fin S) (Fin K) (Fin T) (Fin sigma) (Fin r) Call) = Fin c \<and>
           price (bsm (Fin S) (Fin K) (Fin T) (Fin sigma) (Fin r) Put) = Fin p \<and>
           \<bar>c - p - (S - K * exp (- r * T))\<bar> \<le> max S (K * exp (- r * T)) / 10 ^ 9 \<and>
           (bsm_result.d1 (bsm (Fin S) (Fin K) (Fin T) (Fin sigma) (Fin r) Call) \<noteq> Fin 0 \<and>
            bsm_result.d2 (bsm (Fin S) (Fin K) (Fin T) (Fin sigma) (Fin r) Call) \<noteq> Fin 0 \<longrightarrow>
              c - p = S - K * exp (- r * T)) \<and>
           (S \<le> 1000 \<and> K * exp (- r * T) \<le> 1000 \<longrightarrow>
              \<bar>c - p - (S - K * exp (- r * T))\<bar> \<le> 1 / 10 ^ 6)"
proof -
  let ?d1 = "d1_real S K T sigma r" and ?d2 = "d2_real S K T sigma r"
  let ?e = "K * exp (- r * T)"
  define c where "c = S * normCdf_real ?d1 - ?e * normCdf_real ?d2"
  define p where "p = ?e * normCdf_real (- ?d2) - S * normCdf_real (- ?d1)"
  have e: "0 < ?e" using assms by simp
  have gap: "c - p - (S - ?e) =
     (if ?d1 = 0 then S / 10 ^ 9 else if ?d2 = 0 then - ?e / 10 ^ 9 else 0)"
    unfolding c_def p_def by (rule parity_gap [OF assms])
  have m: "S \<le> max S ?e" "?e \<le> max S ?e" "0 \<le> max S ?e"
    using assms(1) by simp_all
  have b: "\<bar>c - p - (S - ?e)\<bar> \<le> max S ?e / 10 ^ 9"
  proof -
    have "\<bar>S / 10 ^ 9\<bar> \<le> max S ?e / 10 ^ 9"
      using assms(1) m(1) by (simp add: divide_right_mono)
    moreover have "\<bar>- ?e / 10 ^ 9\<bar> \<le> max S ?e / 10 ^ 9"
      using e m(2) by (simp add: divide_right_mono)
    moreover have "\<bar>0::real\<bar> \<le> max S ?e / 10 ^ 9" using m(3) by simp
    ultimately show ?thesis unfolding gap by presburger
  qed
  have x: "c - p = S - ?e" if "?d1 \<noteq> 0" "?d2 \<noteq> 0"
    using gap that by simp
  have t: "\<bar>c - p - (S - ?e)\<bar> \<le> 1 / 10 ^ 6" if "S \<le> 1000" "?e \<le> 1000"
  proof -
    have m1: "max S ?e \<le> 1000" using that by simp
    have "max S ?e / 10 ^ 9 \<le> 1000 / 10 ^ 9" using m1 by (rule divide_right_mono) simp
    also have "(1000::real) / 10 ^ 9 = 1 / 10 ^ 6" by simp
    finally have "max S ?e / 10 ^ 9 \<le> 1 / 10 ^ 6" .
    with b show ?thesis by (rule order_trans)
  qed
  have "price (bsm (Fin S) (Fin K) (Fin T) (Fin sigma) (Fin r) Call) = Fin c"
    "price (bsm (Fin S) (Fin K) (Fin T) (Fin sigma) (Fin r) Put) = Fin p"
    "bsm_result.d1 (bsm (Fin S) (Fin K) (Fin T) (Fin sigma) (Fin r) Call) = Fin ?d1"
    "bsm_result.d2 (bsm (Fin S) (Fin K) (Fin T) (Fin sigma) (Fin r) Call) = Fin ?d2"
    by (simp_all add: bsm_analytic [OF assms] Let_def c_def p_def)
  then show ?thesis using b x t by auto
qed

theorem put_call_parity_witness:
  "(0::real) < 100 \<and> (0::real) < 30 / 252 \<and> (0::real) < 1 / 5 \<and>
   (\<exists>c p. price (bsm (Fin 100) (Fin 100) (Fin (30 / 252)) (Fin (1 / 5)) (Fin (7 / 100)) Call) = Fin c \<and>
          price (bsm (Fin 100) (Fin 100) (Fin (30 / 252)) (Fin (1 / 5)) (Fin (7 / 100)) Put) = Fin p \<and>
          \<bar>c - p - (100 - 100 * exp (- (7 / 100) * (30 / 252)))\<bar> \<le> 1 / 10 ^ 6)"
proof -
  have "exp (- (7 / 100) * (30 / 252)) \<le> (1::real)" by simp
  then have "100 * exp (- (7 / 100) * (30 / 252)) \<le> (1000::real)" by linarith
  with put_call_parity [of 100 100 "30 / 252" "1 / 5" "7 / 100"] show ?thesis
    by auto
qed

text \<open>
  The claim as stated, with the tolerance \<open>1e-6\<close> for all positive \<open>S\<close> and \<open>K\<close>, fails at
  \<open>S = K = 16384\<close>, \<open>T = 1\<close>, \<open>sigma = 0.5\<close>, \<open>r = 0.125\<close>, where \<open>d1 = 0.5\<close> and \<open>d2 = 0\<close>:
  the gap is \<open>16384 e^(-0.125) 1e-9\<close>, more than \<open>1.4e-5\<close>.
\<close>

theorem put_call_parity_counterexample:
  "\<not> (\<exists>c p. price (bsm (Fin 16384) (Fin 16384) (Fin 1) (Fin (1 / 2)) (Fin (1 / 8)) Call) = Fin c \<and>
            price (bsm (Fin 16384) (Fin 16384) (Fin 1) (Fin (1 / 2)) (Fin (1 / 8)) Put) = Fin p \<and>
            \<bar>c - p - (16384 - 16384 * exp (- (1 / 8) * 1))\<bar> \<le> 1 / 10 ^ 6)"
proof
  assume "\<exists>c p. price (bsm (Fin 16384) (Fin 16384) (Fin 1) (Fin (1 / 2)) (Fin (1 / 8)) Call) = Fin c \<and>
            price (bsm (Fin 16384) (Fin 16384) (Fin 1) (Fin (1 / 2)) (Fin (1 / 8)) Put) = Fin p \<and>
            \<bar>c - p - (16384 - 16384 * exp (- (1 / 8) * 1))\<bar> \<le> 1 / 10 ^ 6"
  then obtain c p where
    c: "price (bsm (Fin 16384) (Fin 16384) (Fin 1) (Fin (1 / 2)) (Fin (1 / 8)) Call) = Fin c" and
    p: "price (bsm (Fin 16384) (Fin 16384) (Fin 1) (Fin (1 / 2)) (Fin (1 / 8)) Put) = Fin p" and
    le: "\<bar>c - p - (16384 - 16384 * exp (- (1 / 8) * 1))\<bar> \<le> 1 / 10 ^ 6"
    by blast
  have d1: "d1_real 16384 16384 1 (1 / 2) (1 / 8) = 1 / 2"
    by (simp add: d1_real_def)
  have d2: "d2_real 16384 16384 1 (1 / 2) (1 / 8) = 0"
    by (simp add: d2_real_def d1)
  have pos: "(0::real) < 16384" "(0::real) < 1" "(0::real) < 1 / 2" by simp_all
  have c': "c = 16384 * normCdf_real (d1_real 16384 16384 1 (1 / 2) (1 / 8))
       - 16384 * exp (- (1 / 8) * 1) * normCdf_real (d2_real 16384 16384 1 (1 / 2) (1 / 8))"
    using c by (simp add: bsm_analytic [OF pos(1) pos(1) pos(2) pos(3)] Let_def)
  have p': "p = 16384 * exp (- (1 / 8) * 1) * normCdf_real (- d2_real 16384 16384 1 (1 / 2) (1 / 8))
       - 16384 * normCdf_real (- d1_real 16384 16384 1 (1 / 2) (1 / 8))"
    using p by (simp add: bsm_analytic [OF pos(1) pos(1) pos(2) pos(3)] Let_def)
  have gap: "c - p - (16384 - 16384 * exp (- (1 / 8) * 1)) = - (16384 * exp (- (1 / 8) * 1)) / 10 ^ 9"
    unfolding c' p'
    by (subst parity_gap [OF pos(1) pos(1) pos(2) pos(3)]) (simp add: d1 d2)
  have "1 + (- (1 / 8)) \<le> exp (- (1 / 8) :: real)" by (rule exp_ge_add_one_self)
  then have "(7 / 8 :: real) \<le> exp (- (1 / 8))" by simp
  then have "16384 * (7 / 8 :: real) \<le> 16384 * exp (- (1 / 8))" by simp
  then have "(1 / 10 ^ 6 :: real) < 16384 * exp (- (1 / 8)) / 10 ^ 9" by simp
  moreover have "\<bar>c - p - (16384 - 16384 * exp (- (1 / 8) * 1))\<bar> = 16384 * exp (- (1 / 8)) / 10 ^ 9"
    unfolding gap by simp
  ultimately show False using le by simp
qed

subsection \<open>Bounds on the Greeks\<close>

text \<open>
  C9. For \<open>S > 0\<close>, \<open>K > 0\<close> and all (finite) \<open>T\<close>, \<open>sigma\<close> and \<open>r\<close>, in the analytic and in
  the degenerate branch of \<open>bsm\<close>, the call delta lies in \<open>[0, 1]\<close>, the put delta in
  \<open>[-1, 0]\<close>, and gamma and vega are not negative; the error function approximation keeps
  \<open>normCdf\<close> within \<open>[0, 1]\<close> on every finite argument.
\<close>

theorem greek_bounds:
  assumes "0 < S" "0 < K"
  shows "Fin 0 \<le> delta (bsm_result.greeks (bsm (Fin S) (Fin K) (Fin T) (Fin sigma) (Fin r) Call)) \<and>
         delta (bsm_result.greeks (bsm (Fin S) (Fin K) (Fin T) (Fin sigma) (Fin r) Call)) \<le> Fin 1 \<and>
         Fin (- 1) \<le> delta (bsm_result.greeks (bsm (Fin S) (Fin K) (Fin T) (Fin sigma) (Fin r) Put)) \<and>
         delta (bsm_result.greeks (bsm (Fin S) (Fin K) (Fin T) (Fin sigma) (Fin r) Put)) \<le> Fin 0 \<and>
         (\<forall>ty. Fin 0 \<le> gamma (bsm_result.greeks (bsm (Fin S) (Fin K) (Fin T) (Fin sigma) (Fin r) ty)) \<and>
               Fin 0 \<le> vega (bsm_result.greeks (bsm (Fin S) (Fin K) (Fin T) (Fin sigma) (Fin r) ty))) \<and>
         (\<forall>x. Fin 0 \<le> normCdf (Fin x) \<and> normCdf (Fin x) \<le> Fin 1)"
proof (cases "T \<le> 0 \<or> sigma \<le> 0")
  case True
  then have "Fin T \<le> Fin 0 \<or> Fin sigma \<le> Fin 0" by simp
  then show ?thesis
    by (simp add: bsm_def Let_def normCdf_Fin normCdf_real_bounds)
next
  case False
  then have pos: "0 < T" "0 < sigma" by simp_all
  note b = bsm_analytic [OF assms pos]
  have g: "0 \<le> normPdf_real x / (S * sigma * sqrt T)" for x
    using assms pos normPdf_real_nonneg [of x] by simp
  have v: "0 \<le> S * normPdf_real x * sqrt T" for x
    using assms pos normPdf_real_nonneg [of x] by simp
  show ?thesis
    using normCdf_real_bounds g v by (simp add: b Let_def normCdf_Fin)
qed

theorem greek_bounds_witness:
  "(0::real) < 100 \<and>
   Fin 0 \<le> delta (bsm_result.greeks (bsm (Fin 100) (Fin 100) (Fin (30 / 252)) (Fin (1 / 5)) (Fin (7 / 100)) Call)) \<and>
   delta (bsm_result.greeks (bsm (Fin 100) (Fin 100) (Fin (30 / 252)) (Fin (1 / 5)) (Fin (7 / 100)) Call)) \<le> Fin 1 \<and>
   Fin (- 1) \<le> delta (bsm_result.greeks (bsm (Fin 100) (Fin 100) (Fin (30 / 252)) (Fin (1 / 5)) (Fin (7 / 100)) Put)) \<and>
   delta (bsm_result.greeks (bsm (Fin 100) (Fin 100) (Fin (30 / 252)) (Fin (1 / 5)) (Fin (7 / 100)) Put)) \<le> Fin 0 \<and>
   Fin 0 \<le> gamma (bsm_result.greeks (bsm (Fin 100) (Fin 100) (Fin (30 / 252)) (Fin (1 / 5)) (Fin (7 / 100)) Put)) \<and>
   Fin 0 \<le> vega (bsm_result.greeks (bsm (Fin 100) (Fin 100) (Fin (30 / 252)) (Fin (1 / 5)) (Fin (7 / 100)) Put))"
  using greek_bounds [of 100 100 "30 / 252" "1 / 5" "7 / 100"] by simp

subsection \<open>The gamma hedge\<close>

text \<open>
  C7 (as amended). \<open>calculateGammaHedge\<close> returns null exactly when the portfolio is
  empty, or the absolute portfolio gamma is below \<open>1e-6\<close>, or the chain has no option with
  a maturity of 30 days. Otherwise the suggested quantity is
  \<open>|round(-portfolioGamma / gamma)|\<close> for the gamma of the chosen option, the action is
  Buy if the unrounded quotient is positive and Sell if not, and, provided that no 30-day
  option of the chain has a gamma of \<open>NaN\<close>, the chosen option is, among the 30-day
  options of the chain in iteration order, the last one of those with the largest
  absolute gamma: nothing before it has a larger one, everything after it a smaller one.
\<close>

theorem gamma_hedge_contract:
  "(calculateGammaHedge portfolio chain = None \<longleftrightarrow>
      portfolio = [] \<or>
      Math_abs (gamma (calculatePortfolioGreeks portfolio)) < Fin (1 / 10 ^ 6) \<or>
      filter (\<lambda>opt. maturity opt = Fin 30) (concat (map snd chain)) = []) \<and>
   (\<forall>s. calculateGammaHedge portfolio chain = Some s \<longrightarrow>
      GammaHedgeSuggestion.quantity s =
        Math_abs (Math_round (- gamma (calculatePortfolioGreeks portfolio)
                                / gamma (greeks (GammaHedgeSuggestion.option s)))) \<and>
      action s =
        (if Fin 0 < - gamma (calculatePortfolioGreeks portfolio)
                      / gamma (greeks (GammaHedgeSuggestion.option s))
         then Buy else Sell) \<and>
      ((\<forall>opt \<in> set (concat (map snd chain)). maturity opt = Fin 30 \<longrightarrow> gamma (greeks opt) \<noteq> NaN) \<longrightarrow>
       (\<exists>pre post.
          filter (\<lambda>opt. maturity opt = Fin 30) (concat (map snd chain))
            = pre @ GammaHedgeSuggestion.option s # post \<and>
          (\<forall>opt \<in> set pre. Math_abs (gamma (greeks opt))
               \<le> Math_abs (gamma (greeks (GammaHedgeSuggestion.option s)))) \<and>
          (\<forall>opt \<in> set post. Math_abs (gamma (greeks opt))
               < Math_abs (gamma (greeks (GammaHedgeSuggestion.option s)))))))"
proof -
  let ?cands = "filter (\<lambda>opt. maturity opt = Fin 30) (concat (map snd chain))"
  let ?key = "\<lambda>opt. Math_abs (gamma (greeks opt))"
  let ?sorted = "Array_sort (\<lambda>a b. ?key a - ?key b) ?cands"
  let ?G = "gamma (calculatePortfolioGreeks portfolio)"
  have unf: "calculateGammaHedge portfolio chain =
    (if portfolio = [] then None
     else if Math_abs ?G < Fin (1 / 10 ^ 6) then None
     else case pop ?sorted of None \<Rightarrow> None
          | Some atmOption \<Rightarrow>
              Some \<lparr>action = (if Fin 0 < - ?G / gamma (greeks atmOption) then Buy else Sell),
                    GammaHedgeSuggestion.quantity = Math_abs (Math_round (- ?G / gamma (greeks atmOption))),
                    GammaHedgeSuggestion.option = atmOption\<rparr>)"
    by (simp add: calculateGammaHedge_def Let_def Object_values_def strict_eq_Fin)
  have none: "calculateGammaHedge portfolio chain = None \<longleftrightarrow>
      portfolio = [] \<or> Math_abs ?G < Fin (1 / 10 ^ 6) \<or> ?cands = []"
    unfolding unf by (simp add: pop_def Array_sort_Nil_iff)
  have some: "GammaHedgeSuggestion.quantity s =
        Math_abs (Math_round (- ?G / gamma (greeks (GammaHedgeSuggestion.option s)))) \<and>
      action s = (if Fin 0 < - ?G / gamma (greeks (GammaHedgeSuggestion.option s)) then Buy else Sell) \<and>
      ((\<forall>opt \<in> set (concat (map snd chain)). maturity opt = Fin 30 \<longrightarrow> gamma (greeks opt) \<noteq> NaN) \<longrightarrow>
       (\<exists>pre post. ?cands = pre @ GammaHedgeSuggestion.option s # post \<and>
          (\<forall>opt \<in> set pre. ?key opt \<le> ?key (GammaHedgeSuggestion.option s)) \<and>
          (\<forall>opt \<in> set post. ?key opt < ?key (GammaHedgeSuggestion.option s))))"
    if s: "calculateGammaHedge portfolio chain = Some s" for s
  proof -
    from s have ne: "?sorted \<noteq> []" and
      s_eq: "s = \<lparr>action = (if Fin 0 < - ?G / gamma (greeks (last ?sorted)) then Buy else Sell),
                    GammaHedgeSuggestion.quantity = Math_abs (Math_round (- ?G / gamma (greeks (last ?sorted)))),
                    GammaHedgeSuggestion.option = last ?sorted\<rparr>"
      unfolding unf by (auto simp: pop_def split: if_splits)
    have opt: "GammaHedgeSuggestion.option s = last ?sorted" by (subst s_eq) simp
    have q: "GammaHedgeSuggestion.quantity s = Math_abs (Math_round (- ?G / gamma (greeks (last ?sorted))))"
      by (subst s_eq) simp
    have a: "action s = (if Fin 0 < - ?G / gamma (greeks (last ?sorted)) then Buy else Sell)"
      by (subst s_eq) simp
    have cne: "?cands \<noteq> []" using ne by (simp add: Array_sort_Nil_iff)
    have sel: "\<exists>pre post. ?cands = pre @ last ?sorted # post \<and>
          (\<forall>opt \<in> set pre. ?key opt \<le> ?key (last ?sorted)) \<and>
          (\<forall>opt \<in> set post. ?key opt < ?key (last ?sorted))"
      if fin: "\<forall>opt \<in> set (concat (map snd chain)). maturity opt = Fin 30 \<longrightarrow> gamma (greeks opt) \<noteq> NaN"
    proof (rule last_Array_sort_max [OF _ cne])
      show "\<forall>opt \<in> set ?cands. ?key opt \<noteq> NaN"
        using fin by (auto simp: Math_abs_NaN)
    qed
    show ?thesis unfolding opt using q a sel by blast
  qed
  show ?thesis using none some by blast
qed


theorem gamma_hedge_contract_witness:
  "calculateGammaHedge [\<lparr>option = example_option 100 30 2, quantity = Fin 3\<rparr>]
    [(30, [example_option 95 30 1, example_option 100 30 4, example_option 105 30 4]),
     (60, [example_option 100 60 9])]
   = Some \<lparr>action = Sell, GammaHedgeSuggestion.quantity = Fin 1,
            GammaHedgeSuggestion.option = example_option 105 30 4\<rparr> \<and>
   (\<exists>pre post.
      [example_option 95 30 1, example_option 100 30 4, example_option 105 30 4]
        = pre @ example_option 105 30 4 # post \<and>
      (\<forall>opt \<in> set pre. Math_abs (gamma (greeks opt)) \<le> Fin 4) \<and>
      (\<forall>opt \<in> set post. Math_abs (gamma (greeks opt)) < Fin 4))"
proof -
  let ?P = "[\<lparr>option = example_option 100 30 2, quantity = Fin 3\<rparr>]"
  let ?C = "[(30, [example_option 95 30 1, example_option 100 30 4, example_option 105 30 4]),
     (60, [example_option 100 60 9])]"
  have v: "calculateGammaHedge ?P ?C
     = Some \<lparr>action = Sell, GammaHedgeSuggestion.quantity = Fin 1,
            GammaHedgeSuggestion.option = example_option 105 30 4\<rparr>"
    by (simp add: calculateGammaHedge_def calculatePortfolioGreeks_def Let_def Object_values_def
      example_option_def strict_eq_def Array_sort_def pop_def minus_jsnum_def)
  have f: "filter (\<lambda>opt. maturity opt = Fin 30) (concat (map snd ?C))
     = [example_option 95 30 1, example_option 100 30 4, example_option 105 30 4]"
    by (simp add: example_option_def)
  have g: "\<forall>opt \<in> set (concat (map snd ?C)). maturity opt = Fin 30 \<longrightarrow> gamma (greeks opt) \<noteq> NaN"
    by (simp add: example_option_def)
  have k: "Math_abs (gamma (greeks (example_option 105 30 4))) = Fin 4"
    by (simp add: example_option_def)
  from gamma_hedge_contract [of ?P ?C] v g
  show ?thesis unfolding f by (simp add: k)
qed

text \<open>
  The claim as stated, without the proviso, fails when a 30-day option has a gamma of
  \<open>NaN\<close>: the comparator then returns \<open>NaN\<close>, which the sort takes as "equal", and the
  order of the array is no longer the order of the absolute gammas. On the 30-day options
  with gammas 4, \<open>NaN\<close>, 1 (in this order) the sort leaves the array as it is and the
  option with gamma 1 is chosen, although the first one has the larger absolute gamma.
\<close>

theorem gamma_hedge_nan_counterexample:
  "\<exists>s. calculateGammaHedge [\<lparr>option = example_option 100 30 2, quantity = Fin 3\<rparr>]
          [(30, [example_option 95 30 4,
                 (example_option 100 30 0)
                   \<lparr>greeks := (greeks (example_option 100 30 0))\<lparr>gamma := NaN\<rparr>\<rparr>,
                 example_option 105 30 1])] = Some s \<and>
       GammaHedgeSuggestion.option s = example_option 105 30 1 \<and>
       example_option 95 30 4 \<in>
         set (filter (\<lambda>opt. maturity opt = Fin 30)
               (concat (map snd
                 [(30, [example_option 95 30 4,
                        (example_option 100 30 0)
                          \<lparr>greeks := (greeks (example_option 100 30 0))\<lparr>gamma := NaN\<rparr>\<rparr>,
                        example_option 105 30 1])]))) \<and>
       Math_abs (gamma (greeks (GammaHedgeSuggestion.option s)))
         < Math_abs (gamma (greeks (example_option 95 30 4)))"
  by (simp add: calculateGammaHedge_def calculatePortfolioGreeks_def Let_def Object_values_def
      example_option_def strict_eq_def Array_sort_def pop_def minus_jsnum_def)

text \<open>
  C10. When the chain has no option with a maturity of 30 days (an empty chain, say),
  \<open>calculateGammaHedge\<close> returns null, whatever the portfolio.
\<close>

theorem gamma_hedge_no_candidate:
  assumes "\<forall>opt \<in> set (concat (map snd chain)). maturity opt \<noteq> Fin 30"
  shows "calculateGammaHedge portfolio chain = None"
proof -
  have "filter (\<lambda>opt. strict_eq (maturity opt) (Fin 30)) (concat (map snd chain)) = []"
    using assms by (auto simp: filter_empty_conv strict_eq_Fin)
  then show ?thesis
    by (simp add: calculateGammaHedge_def Let_def Object_values_def Array_sort_def pop_def)
qed


theorem gamma_hedge_no_candidate_witness:
  "maturity (example_option 100 60 9) \<noteq> Fin 30 \<and>
   calculateGammaHedge [\<lparr>option = example_option 100 30 2, quantity = Fin 3\<rparr>]
     [(60, [example_option 100 60 9])] = None"
  using gamma_hedge_no_candidate [of "[(60, [example_option 100 60 9])]"
      "[\<lparr>option = example_option 100 30 2, quantity = Fin 3\<rparr>]"]
  by (simp add: example_option_def)

subsection \<open>Statistics of a constant series\<close>

lemma Math_pow_Fin: "Math_pow (Fin x) n = Fin (x ^ n)"
  by (cases n) simp_all

lemma foldl_zero_replicate:
  assumes "f (Fin 0) = Fin 0"
  shows "foldl (\<lambda>sum r. sum + f r) (Fin 0) (replicate m (Fin 0)) = Fin 0"
  using assms by (induction m) simp_all

lemma constant_returns:
  assumes "0 < c"
  shows "map (\<lambda>(p, prev). Math_log (p / prev)) (zip (drop 1 (replicate n (Fin c))) (replicate n (Fin c)))
         = replicate (n - 1) (Fin 0)"
proof -
  have "zip (replicate (n - 1) (Fin c)) (replicate n (Fin c)) = replicate (n - 1) (Fin c, Fin c)"
    by (simp add: zip_replicate)
  then show ?thesis using assms by (simp add: drop_replicate)
qed

text \<open>
  C5 (as amended). For a constant price series of length at least 3, all prices equal and
  positive, \<open>calculateSummaryStatistics\<close> returns log returns that are all 0 and an
  annualized volatility of 0; the division by the zero standard deviation is not
  special-cased, so skewness and kurtosis are \<open>NaN\<close> (from \<open>0 / 0\<close>).
\<close>

theorem constant_series_statistics:
  assumes "0 < c" and "3 \<le> n"
  shows "calculateSummaryStatistics (replicate n (Fin c)) =
           \<lparr>dailyLogReturns = replicate (n - 1) (Fin 0), annualizedVolatility = Fin 0,
            skewness = NaN, kurtosis = NaN\<rparr>"
proof -
  define m where "m = n - 1"
  have m: "\<not> m < 2" "real m \<noteq> 0" "real m - 1 \<noteq> 0"
    using assms(2) by (simp_all add: m_def)
  have mean: "foldl (\<lambda>sum r. sum + r) (Fin 0) (replicate m (Fin 0)) / Fin (real m) = Fin 0"
    using foldl_zero_replicate [of "\<lambda>r. r" m] m by simp
  have mom: "foldl (\<lambda>sum r. sum + Math_pow (r - Fin 0) k) (Fin 0) (replicate m (Fin 0)) = Fin 0"
    if "0 < k" for k
    using that by (intro foldl_zero_replicate) (simp add: minus_jsnum_def Math_pow_Fin)
  have std: "Math_sqrt (foldl (\<lambda>sum r. sum + Math_pow (r - Fin 0) 2) (Fin 0) (replicate m (Fin 0))
                         / (Fin (real m) - Fin 1)) = Fin 0"
    using m by (subst mom) (simp_all add: minus_jsnum_def)
  have skew: "foldl (\<lambda>sum r. sum + Math_pow (r - Fin 0) 3) (Fin 0) (replicate m (Fin 0)) / Fin (real m)
                / Math_pow (Fin 0) 3 = NaN"
    using m by (subst mom) (simp_all add: Math_pow_Fin)
  have kurt: "foldl (\<lambda>sum r. sum + Math_pow (r - Fin 0) 4) (Fin 0) (replicate m (Fin 0)) / Fin (real m)
                / Math_pow (Fin 0) 4 - Fin 3 = NaN"
    using m by (subst mom) (simp_all add: Math_pow_Fin minus_jsnum_def)
  have vol: "Fin 0 * Math_sqrt (Fin 252) = Fin 0" by simp
  show ?thesis
    unfolding calculateSummaryStatistics_def constant_returns [OF assms(1)] m_def [symmetric]
    by (simp only: Let_def length_replicate m if_False mean std skew kurt vol)
qed

theorem constant_series_statistics_witness:
  "(0::real) < 100 \<and> (3::nat) \<le> 3 \<and>
   calculateSummaryStatistics [Fin 100, Fin 100, Fin 100] =
     \<lparr>dailyLogReturns = [Fin 0, Fin 0], annualizedVolatility = Fin 0,
      skewness = NaN, kurtosis = NaN\<rparr>"
  using constant_series_statistics [of 100 3] by (simp add: numeral_3_eq_3)

text \<open>
  The claim as stated has the skewness special-cased to 0; on the prices 100, 100, 100 it
  is not 0.
\<close>

theorem constant_series_skewness_counterexample:
  "skewness (calculateSummaryStatistics [Fin 100, Fin 100, Fin 100]) \<noteq> Fin 0"
  by (simp add: calculateSummaryStatistics_def Let_def Math_pow_Fin minus_jsnum_def)

subsection \<open>Structure of the generated chain\<close>

lemma Set_values_foldl:
  "distinct acc \<Longrightarrow>
   distinct (foldl (\<lambda>acc x. if x \<in> set acc then acc else acc @ [x]) acc xs) \<and>
   set (foldl (\<lambda>acc x. if x \<in> set acc then acc else acc @ [x]) acc xs) = set acc \<union> set xs"
  by (induction xs arbitrary: acc) auto

lemma distinct_Set_values: "distinct (Set_values xs)"
  using Set_values_foldl [of "[]" xs] by (simp add: Set_values_def)

lemma set_Set_values: "set (Set_values xs) = set xs"
  using Set_values_foldl [of "[]" xs] by (simp add: Set_values_def)

lemma distinct_sort_insert: "distinct (sort_insert cmp x ys) \<longleftrightarrow> x \<notin> set ys \<and> distinct ys"
  by (induction ys) (auto simp: set_sort_insert)

lemma distinct_Array_sort: "distinct (Array_sort cmp xs) \<longleftrightarrow> distinct xs"
  by (induction xs) (auto simp: Array_sort_def distinct_sort_insert set_Array_sort [unfolded Array_sort_def])

lemma count_in_pairs:
  assumes "distinct ks" and "k \<in> set ks"
    and "\<And>k' ty'. strike (mk k' ty') = k' \<and> type (mk k' ty') = ty'"
  shows "length (filter (\<lambda>opt. strike opt = k \<and> type opt = ty)
            (concat (map (\<lambda>k'. map (mk k') [Call, Put]) ks))) = 1"
  using assms(1,2)
proof (induction ks)
  case Nil
  then show ?case by simp
next
  case (Cons a ks)
  have none: "filter (\<lambda>opt. strike opt = k \<and> type opt = ty)
            (concat (map (\<lambda>k'. map (mk k') [Call, Put]) ks)) = []" if "k \<notin> set ks"
    using that assms(3) by (auto simp: filter_empty_conv)
  show ?case
  proof (cases "a = k")
    case True
    then have "k \<notin> set ks" using Cons.prems by simp
    from none [OF this] True show ?thesis
      using assms(3) by (cases ty) simp_all
  next
    case False
    then have "k \<in> set ks" "distinct ks" using Cons.prems by simp_all
    from Cons.IH [OF this(2,1)] False show ?thesis
      using assms(3) by simp
  qed
qed

text \<open>
  C6. For a (finite) current price above 0 and any historical volatility, rate and list of
  existing strikes, the maturities of the generated chain are 30, 60 and 90, in this
  order. At each maturity every option carries that maturity and a strike of the merged
  strike set (the rounded multiples of the current price together with the existing
  strikes), and for each strike of that set there is exactly one call and exactly one
  put; so every existing strike is present at all three maturities. An option whose
  strike equals the current price has the historical volatility as its \<open>iv\<close>.
\<close>

theorem chain_structure:
  assumes "0 < cp"
  shows "map fst (generateOptionChain (Fin cp) hv rate existing) = [30, 60, 90] \<and>
    (\<forall>(m, opts) \<in> set (generateOptionChain (Fin cp) hv rate existing).
       (\<forall>opt \<in> set opts.
          maturity opt = Fin (real m) \<and>
          strike opt \<in> set (map (\<lambda>m. Math_round (Fin cp * Fin m)) [0.95, 0.98, 1, 1.02, 1.05])
                         \<union> set existing) \<and>
       (\<forall>k \<in> set (map (\<lambda>m. Math_round (Fin cp * Fin m)) [0.95, 0.98, 1, 1.02, 1.05])
                \<union> set existing.
          \<forall>ty. length (filter (\<lambda>opt. strike opt = k \<and> type opt = ty) opts) = 1) \<and>
       (\<forall>opt \<in> set opts. strike opt = Fin cp \<longrightarrow> iv opt = hv))"
proof -
  let ?S = "set (map (\<lambda>m. Math_round (Fin cp * Fin m)) [0.95, 0.98, 1, 1.02, 1.05]) \<union> set existing"
  define smile where
    "smile k = hv * (Fin 1 + Fin 0.2 * Math_pow (Math_log (k / Fin cp)) 2
                      - Fin 0.1 * Math_log (k / Fin cp))" for k
  define mk where
    "mk m k ty =
       \<lparr>strike = k, maturity = Fin (real m), type = ty,
        bsmPrice = price (bsm (Fin cp) k (Fin (real m) / Fin 252) (smile k) (rate / Fin 100) ty),
        iv = smile k,
        greeks = bsm_result.greeks (bsm (Fin cp) k (Fin (real m) / Fin 252) (smile k) (rate / Fin 100) ty),
        d1 = bsm_result.d1 (bsm (Fin cp) k (Fin (real m) / Fin 252) (smile k) (rate / Fin 100) ty),
        d2 = bsm_result.d2 (bsm (Fin cp) k (Fin (real m) / Fin 252) (smile k) (rate / Fin 100) ty),
        bsmPriceHistVol = price (bsm (Fin cp) k (Fin (real m) / Fin 252) hv (rate / Fin 100) ty),
        greeksHistVol = bsm_result.greeks (bsm (Fin cp) k (Fin (real m) / Fin 252) hv (rate / Fin 100) ty)\<rparr>"
    for m :: nat and k ty
  define strikes where
    "strikes = Array_sort (\<lambda>a b. a - b)
       (Set_values (map (\<lambda>m. Math_round (Fin cp * m)) [Fin 0.95, Fin 0.98, Fin 1, Fin 1.02, Fin 1.05]
                    @ existing))"
  have chain: "generateOptionChain (Fin cp) hv rate existing =
      map (\<lambda>m. (m, concat (map (\<lambda>k. map (mk m k) [Call, Put]) strikes))) [30, 60, 90]"
    unfolding generateOptionChain_def Let_def mk_def smile_def strikes_def by simp
  have dist: "distinct strikes"
    by (simp add: strikes_def distinct_Array_sort distinct_Set_values)
  have set_strikes: "set strikes = ?S"
    by (simp add: strikes_def set_Array_sort set_Set_values)
  have fields: "strike (mk m k ty) = k \<and> type (mk m k ty) = ty" for m k ty
    by (simp add: mk_def)
  have smile_atm: "smile (Fin cp) = hv"
    using assms by (cases hv) (simp_all add: smile_def Math_pow_Fin minus_jsnum_def)
  have per_maturity:
    "(\<forall>opt \<in> set opts. maturity opt = Fin (real m) \<and> strike opt \<in> ?S) \<and>
     (\<forall>k \<in> ?S. \<forall>ty. length (filter (\<lambda>opt. strike opt = k \<and> type opt = ty) opts) = 1) \<and>
     (\<forall>opt \<in> set opts. strike opt = Fin cp \<longrightarrow> iv opt = hv)"
    if opts: "opts = concat (map (\<lambda>k. map (mk m k) [Call, Put]) strikes)" for m opts
  proof (intro conjI ballI allI impI)
    fix opt assume "opt \<in> set opts"
    then obtain k ty where k: "k \<in> set strikes" and opt: "opt = mk m k ty"
      unfolding opts by auto
    show "maturity opt = Fin (real m)" by (simp add: opt mk_def)
    show "strike opt \<in> ?S" using k set_strikes by (simp add: opt mk_def)
    show "iv opt = hv" if "strike opt = Fin cp"
      using that smile_atm by (simp add: opt mk_def)
  next
    fix k ty assume "k \<in> ?S"
    then have "k \<in> set strikes" using set_strikes by simp
    from count_in_pairs [OF dist this, of "mk m" ty] fields
    show "length (filter (\<lambda>opt. strike opt = k \<and> type opt = ty) opts) = 1"
      unfolding opts by blast
  qed
  have "map fst (generateOptionChain (Fin cp) hv rate existing) = [30, 60, 90]"
    unfolding chain by simp
  moreover have "\<forall>(m, opts) \<in> set (generateOptionChain (Fin cp) hv rate existing).
       (\<forall>opt \<in> set opts. maturity opt = Fin (real m) \<and> strike opt \<in> ?S) \<and>
       (\<forall>k \<in> ?S. \<forall>ty. length (filter (\<lambda>opt. strike opt = k \<and> type opt = ty) opts) = 1) \<and>
       (\<forall>opt \<in> set opts. strike opt = Fin cp \<longrightarrow> iv opt = hv)"
  proof (intro ballI, clarify)
    fix m opts assume "(m, opts) \<in> set (generateOptionChain (Fin cp) hv rate existing)"
    then have "opts = concat (map (\<lambda>k. map (mk m k) [Call, Put]) strikes)"
      unfolding chain by auto
    from per_maturity [OF this]
    show "(\<forall>opt \<in> set opts. maturity opt = Fin (real m) \<and> strike opt \<in> ?S) \<and>
       (\<forall>k \<in> ?S. \<forall>ty. length (filter (\<lambda>opt. strike opt = k \<and> type opt = ty) opts) = 1) \<and>
       (\<forall>opt \<in> set opts. strike opt = Fin cp \<longrightarrow> iv opt = hv)" .
  qed
  ultimately show ?thesis by (rule conjI)
qed

theorem chain_structure_witness:
  "(0::real) < 100 \<and>
   map fst (generateOptionChain (Fin 100) (Fin (1 / 5)) (Fin 7) [Fin 97]) = [30, 60, 90] \<and>
   (\<exists>opts. (60, opts) \<in> set (generateOptionChain (Fin 100) (Fin (1 / 5)) (Fin 7) [Fin 97]) \<and>
      length (filter (\<lambda>opt. strike opt = Fin 97 \<and> type opt = Put) opts) = 1 \<and>
      length (filter (\<lambda>opt. strike opt = Fin 100 \<and> type opt = Call) opts) = 1 \<and>
      (\<forall>opt \<in> set opts. strike opt = Fin 100 \<longrightarrow> iv opt = Fin (1 / 5)))"
proof -
  let ?ch = "generateOptionChain (Fin 100) (Fin (1 / 5)) (Fin 7) [Fin 97]"
  let ?S = "set (map (\<lambda>m. Math_round (Fin 100 * Fin m)) [0.95, 0.98, 1, 1.02, 1.05]) \<union> set [Fin 97]"
  note t = chain_structure [of 100 "Fin (1 / 5)" "Fin 7" "[Fin 97]"]
  have pos: "(0::real) < 100" by simp
  have keys: "map fst ?ch = [30, 60, 90]" using t [OF pos] by blast
  then have "60 \<in> fst ` set ?ch" by (metis list.set_intros(1,2) set_map)
  then obtain opts where in_ch: "(60, opts) \<in> set ?ch" by force
  have s1: "Fin 97 \<in> ?S" by simp
  have s2: "Fin 100 \<in> ?S" by simp
  from t [OF pos] in_ch have
    a: "\<forall>k \<in> ?S. \<forall>ty. length (filter (\<lambda>opt. strike opt = k \<and> type opt = ty) opts) = 1" and
    b: "\<forall>opt \<in> set opts. strike opt = Fin 100 \<longrightarrow> iv opt = Fin (1 / 5)"
    by blast+
  from a s1 have "length (filter (\<lambda>opt. strike opt = Fin 97 \<and> type opt = Put) opts) = 1" by blast
  moreover from a s2 have "length (filter (\<lambda>opt. strike opt = Fin 100 \<and> type opt = Call) opts) = 1" by blast
  ultimately show ?thesis using keys in_ch b pos by blast
qed

subsection \<open>Sums\<close>

lemma jsnum_add_assoc: "(a + b) + c = a + (b + c)" for a b c :: jsnum
  by (cases a; cases b; cases c) simp_all

lemma jsnum_add_commute: "a + b = b + a" for a b :: jsnum
  by (cases a; cases b) simp_all

lemma jsnum_add_zero: "Fin 0 + a = a" "a + Fin 0 = a"
  by (cases a; simp)+

lemma foldl_add_start: "foldl (\<lambda>s x. s + f x) (a + b) xs = a + foldl (\<lambda>s x. s + f x) b xs"
  for a b :: jsnum
  by (induction xs arbitrary: b) (simp_all add: jsnum_add_assoc)

lemma foldl_jsum: "foldl (\<lambda>s x. s + f x) (Fin 0) xs = jsum (map f xs)"
proof (induction xs)
  case Nil
  then show ?case by (simp add: jsum_def)
next
  case (Cons x xs)
  have "foldl (\<lambda>s x. s + f x) (Fin 0) (x # xs) = foldl (\<lambda>s x. s + f x) (f x + Fin 0) xs"
    by (simp add: jsnum_add_zero)
  also have "\<dots> = f x + foldl (\<lambda>s x. s + f x) (Fin 0) xs" by (rule foldl_add_start)
  also have "\<dots> = jsum (map f (x # xs))" using Cons.IH by (simp add: jsum_def)
  finally show ?case .
qed

lemma jsum_Fin: "jsum (map Fin rs) = Fin (sum_list rs)"
  by (induction rs) (simp_all add: jsum_def)

lemma jsum_Fin_map: "jsum (map (\<lambda>r. Fin (g r)) rs) = Fin (sum_list (map g rs))"
  using jsum_Fin [of "map g rs"] by (simp add: comp_def)

subsection \<open>Value at risk\<close>

lemma filter_isFinite: "filter isFinite xs = map Fin (finite_values xs)"
  by (induction xs rule: finite_values.induct) simp_all

lemma sort_insert_Fin:
  "sort_insert (\<lambda>a b. a - b) (Fin x) (map Fin ys) = map Fin (insort x ys)"
  by (induction ys) (auto simp: minus_jsnum_def)

lemma Array_sort_Fin: "Array_sort (\<lambda>a b. a - b) (map Fin rs) = map Fin (sort rs)"
  by (induction rs) (simp_all add: Array_sort_def sort_insert_Fin)

lemma quantile_index:
  assumes "0 < n" and "0 \<le> q" and "q < 1"
  shows "nat \<lfloor>q * real n\<rfloor> < n"
proof -
  have "q * real n < 1 * real n" using assms by (intro mult_strict_right_mono) simp_all
  then have "\<lfloor>q * real n\<rfloor> < int n" by (simp add: floor_less_iff)
  then show ?thesis using assms(1) by linarith
qed

lemma pvSeries_value_series:
  "map (\<lambda>S_t.
      foldl (\<lambda>totalValue pos.
         let T = maturity (option pos) / Fin 252.0;
             r = riskFreeRate config / Fin 100;
             repriced = bsm S_t (strike (option pos)) T (iv (option pos)) r (type (option pos))
         in totalValue + quantity pos * price repriced * lotSize config)
       (Fin 0) portfolio)
    stockPrices = value_series config portfolio stockPrices"
  unfolding value_series_def portfolio_value_at_def position_price_def Let_def
  by (simp add: foldl_jsum)

lemma returns_simple_returns:
  "map (\<lambda>(p, prev). (p - prev) / prev) (zip (drop 1 vs) vs) = simple_returns vs"
  by (simp add: simple_returns_def drop_Suc)

lemma at_index_last: "vs \<noteq> [] \<Longrightarrow> at_index vs (length vs - 1) = last vs"
  by (simp add: at_index_def last_conv_nth)

lemma mean_Fin:
  assumes "rs \<noteq> []"
  shows "foldl (\<lambda>s r. s + r) (Fin 0) (map Fin rs) / Fin (real (length rs)) = Fin (sample_mean rs)"
proof -
  have "foldl (\<lambda>s r. s + r) (Fin 0) (map Fin rs) = Fin (sum_list rs)"
    using foldl_jsum [of "\<lambda>r. r" "map Fin rs"] by (simp add: jsum_Fin)
  then show ?thesis using assms by (simp add: sample_mean_def)
qed

lemma std_Fin:
  assumes "2 \<le> length rs"
  shows "Math_sqrt (foldl (\<lambda>s r. s + Math_pow (r - Fin (sample_mean rs)) 2) (Fin 0) (map Fin rs)
                      / (Fin (real (length rs)) - Fin 1)) = Fin (sample_std rs)"
proof -
  let ?m = "sample_mean rs"
  have "foldl (\<lambda>s r. s + Math_pow (r - Fin ?m) 2) (Fin 0) (map Fin rs)
          = jsum (map (\<lambda>r. Math_pow (r - Fin ?m) 2) (map Fin rs))"
    by (rule foldl_jsum)
  also have "\<dots> = jsum (map (\<lambda>r. Fin ((r - ?m) ^ 2)) rs)"
    by (simp add: comp_def minus_jsnum_def Math_pow_Fin)
  also have "\<dots> = Fin (sum_list (map (\<lambda>r. (r - ?m) ^ 2) rs))" by (rule jsum_Fin_map)
  finally have f: "foldl (\<lambda>s r. s + Math_pow (r - Fin ?m) 2) (Fin 0) (map Fin rs)
          = Fin (sum_list (map (\<lambda>r. (r - ?m) ^ 2) rs))" .
  have n: "real (length rs) - 1 \<noteq> 0" "0 < real (length rs) - 1" using assms by simp_all
  have nonneg: "0 \<le> sum_list (map (\<lambda>r. (r - ?m) ^ 2) rs)"
    by (rule sum_list_nonneg) auto
  then have "\<not> sum_list (map (\<lambda>r. (r - ?m) ^ 2) rs) / (real (length rs) - 1) < 0"
    using n(2) by (simp add: not_less)
  then show ?thesis
    unfolding f using n by (simp add: minus_jsnum_def sample_std_def)
qed

lemma VaR_unfold:
  assumes "portfolio \<noteq> []" and "2 \<le> length (valid_returns config portfolio prices)"
  shows "calculatePortfolioVaR portfolio prices config =
    \<lparr>parametric95 =
       - (Fin (sample_mean (valid_returns config portfolio prices))
          + normCdf (Fin 0.05) * Fin (sample_std (valid_returns config portfolio prices)))
         * last (value_series config portfolio prices),
     parametric99 =
       - (Fin (sample_mean (valid_returns config portfolio prices))
          + normCdf (Fin 0.01) * Fin (sample_std (valid_returns config portfolio prices)))
         * last (value_series config portfolio prices),
     historical95 =
       - Fin (sort (valid_returns config portfolio prices)
               ! nat \<lfloor>0.05 * real (length (valid_returns config portfolio prices))\<rfloor>)
         * last (value_series config portfolio prices),
     historical99 =
       - Fin (sort (valid_returns config portfolio prices)
               ! nat \<lfloor>0.01 * real (length (valid_returns config portfolio prices))\<rfloor>)
         * last (value_series config portfolio prices)\<rparr>"
proof -
  define vs where "vs = value_series config portfolio prices"
  define rs where "rs = valid_returns config portfolio prices"
  have rs2: "2 \<le> length rs" "rs \<noteq> []" "0 < length rs" using assms(2) by (auto simp: rs_def)
  have "length rs \<le> length (simple_returns vs)"
    using length_filter_le [of isFinite "simple_returns vs"]
    by (simp add: filter_isFinite rs_def valid_returns_def vs_def)
  then have lp: "3 \<le> length prices"
    using rs2(1) by (simp add: simple_returns_def vs_def value_series_def)
  then have vs_ne: "vs \<noteq> []" by (auto simp: vs_def value_series_def)
  have c1: "\<not> (length portfolio = 0 \<or> length prices < 2)" using assms(1) lp by simp
  have pr: "filter isFinite (simple_returns vs) = map Fin rs"
    by (simp add: filter_isFinite rs_def valid_returns_def vs_def)
  have c2: "\<not> length rs < 2" using rs2 by simp
  have i95: "at_index (map Fin (sort rs)) (nat \<lfloor>0.05 * real (length rs)\<rfloor>)
               = Fin (sort rs ! nat \<lfloor>0.05 * real (length rs)\<rfloor>)"
    using quantile_index [OF rs2(3), of "0.05"] by (simp add: at_index_def)
  have i99: "at_index (map Fin (sort rs)) (nat \<lfloor>0.01 * real (length rs)\<rfloor>)
               = Fin (sort rs ! nat \<lfloor>0.01 * real (length rs)\<rfloor>)"
    using quantile_index [OF rs2(3), of "0.01"] by (simp add: at_index_def)
  show ?thesis
    unfolding calculatePortfolioVaR_def pvSeries_value_series
    unfolding vs_def [symmetric] rs_def [symmetric]
    by (simp only: Let_def returns_simple_returns pr length_map c1 c2 if_False
          mean_Fin [OF rs2(2)] std_Fin [OF rs2(1)] Array_sort_Fin i95 i99 at_index_last [OF vs_ne])
qed

lemma VaR_early:
  assumes "portfolio = [] \<or> length prices < 2 \<or> length (valid_returns config portfolio prices) < 2"
  shows "calculatePortfolioVaR portfolio prices config =
    \<lparr>parametric95 = Fin 0, parametric99 = Fin 0, historical95 = Fin 0, historical99 = Fin 0\<rparr>"
proof (cases "length portfolio = 0 \<or> length prices < 2")
  case True
  then show ?thesis by (simp add: calculatePortfolioVaR_def)
next
  case False
  then have "length (valid_returns config portfolio prices) < 2" using assms by auto
  then have "length (filter isFinite (simple_returns (value_series config portfolio prices))) < 2"
    by (simp add: filter_isFinite valid_returns_def)
  then show ?thesis
    unfolding calculatePortfolioVaR_def pvSeries_value_series
    by (simp only: Let_def returns_simple_returns if_True False if_False)
qed

lemma stock_value_series:
  "value_series \<lparr>riskFreeRate = Fin 7, lotSize = Fin 1\<rparr> [stock_position 1] (map Fin ps)
     = map (\<lambda>p. Fin (max 0 p)) ps"
  by (simp add: value_series_def portfolio_value_at_def position_price_def stock_position_def
        jsum_def bsm_def minus_jsnum_def max_def)

lemma stock_rising:
  "value_series \<lparr>riskFreeRate = Fin 7, lotSize = Fin 1\<rparr> [stock_position 1] [Fin 1, Fin 2, Fin 4]
     = [Fin 1, Fin 2, Fin 4]"
  "valid_returns \<lparr>riskFreeRate = Fin 7, lotSize = Fin 1\<rparr> [stock_position 1] [Fin 1, Fin 2, Fin 4]
     = [1, 1]"
  using stock_value_series [of "[1, 2, 4]"]
  by (simp_all add: valid_returns_def simple_returns_def minus_jsnum_def)

lemma stock_falling:
  "value_series \<lparr>riskFreeRate = Fin 7, lotSize = Fin 1\<rparr> [stock_position 1] [Fin 4, Fin 2, Fin 1]
     = [Fin 4, Fin 2, Fin 1]"
  "valid_returns \<lparr>riskFreeRate = Fin 7, lotSize = Fin 1\<rparr> [stock_position 1] [Fin 4, Fin 2, Fin 1]
     = [- 1 / 2, - 1 / 2]"
  using stock_value_series [of "[4, 2, 1]"]
  by (simp_all add: valid_returns_def simple_returns_def minus_jsnum_def)

lemma neg_times_Fin_nonneg:
  "Fin 0 \<le> - (Fin a + Fin b * Fin c) * Fin v \<longleftrightarrow> (a + b * c) * v \<le> 0"
proof -
  have "Fin 0 \<le> - (Fin a + Fin b * Fin c) * Fin v \<longleftrightarrow> 0 \<le> - ((a + b * c) * v)"
    by (simp add: algebra_simps)
  then show ?thesis by simp
qed

text \<open>
  C3. For a non-empty portfolio and a price series whose repriced portfolio values give at
  least two finite simple returns, \<open>parametric95\<close> is
  \<open>-(mean + normCdf(0.05) * std) * V_last\<close> and \<open>parametric99\<close> is
  \<open>-(mean + normCdf(0.01) * std) * V_last\<close>, where \<open>mean\<close> and \<open>std\<close> are the mean and the
  sample standard deviation (dividing by \<open>n - 1\<close>) of those returns, \<open>normCdf\<close> is the
  error function approximation of the distribution function (not its inverse), and
  \<open>V_last\<close> is the last element of the repriced value series.
\<close>

theorem parametric_var_formula:
  assumes "portfolio \<noteq> []" and "2 \<le> length (valid_returns config portfolio prices)"
  shows "parametric95 (calculatePortfolioVaR portfolio prices config) =
           - (Fin (sample_mean (valid_returns config portfolio prices))
              + normCdf (Fin 0.05) * Fin (sample_std (valid_returns config portfolio prices)))
             * last (value_series config portfolio prices) \<and>
         parametric99 (calculatePortfolioVaR portfolio prices config) =
           - (Fin (sample_mean (valid_returns config portfolio prices))
              + normCdf (Fin 0.01) * Fin (sample_std (valid_returns config portfolio prices)))
             * last (value_series config portfolio prices)"
  by (simp add: VaR_unfold [OF assms])

theorem parametric_var_formula_witness:
  "[stock_position 1] \<noteq> [] \<and>
   valid_returns \<lparr>riskFreeRate = Fin 7, lotSize = Fin 1\<rparr> [stock_position 1] [Fin 1, Fin 2, Fin 4]
     = [1, 1] \<and>
   parametric95 (calculatePortfolioVaR [stock_position 1] [Fin 1, Fin 2, Fin 4]
                   \<lparr>riskFreeRate = Fin 7, lotSize = Fin 1\<rparr>) = Fin (- 4) \<and>
   parametric99 (calculatePortfolioVaR [stock_position 1] [Fin 1, Fin 2, Fin 4]
                   \<lparr>riskFreeRate = Fin 7, lotSize = Fin 1\<rparr>) = Fin (- 4)"
  using parametric_var_formula [of "[stock_position 1]" "\<lparr>riskFreeRate = Fin 7, lotSize = Fin 1\<rparr>"
      "[Fin 1, Fin 2, Fin 4]"]
  by (simp add: stock_rising sample_mean_def sample_std_def normCdf_Fin)

text \<open>
  C4 (as amended). The four fields are 0 when the portfolio is empty, when fewer than two
  prices are given, or when fewer than two finite returns result. Otherwise nothing clamps
  them at 0: with a finite last portfolio value \<open>v\<close>, \<open>parametric95\<close> and \<open>parametric99\<close>
  are at least 0 exactly when \<open>(mean + normCdf(q) * std) * v \<le> 0\<close> (for \<open>q\<close> = 0.05 and
  0.01), and \<open>historical95\<close> and \<open>historical99\<close> exactly when the product of \<open>v\<close> and the
  sorted return at index \<open>floor(q * n)\<close> is at most 0.
\<close>

theorem var_sign:
  "(portfolio = [] \<or> length prices < 2 \<or> length (valid_returns config portfolio prices) < 2 \<longrightarrow>
      calculatePortfolioVaR portfolio prices config =
        \<lparr>parametric95 = Fin 0, parametric99 = Fin 0, historical95 = Fin 0, historical99 = Fin 0\<rparr>) \<and>
   (portfolio \<noteq> [] \<and> 2 \<le> length (valid_returns config portfolio prices) \<and>
    last (value_series config portfolio prices) = Fin v \<longrightarrow>
      (Fin 0 \<le> parametric95 (calculatePortfolioVaR portfolio prices config) \<longleftrightarrow>
         (sample_mean (valid_returns config portfolio prices)
            + normCdf_real 0.05 * sample_std (valid_returns config portfolio prices)) * v \<le> 0) \<and>
      (Fin 0 \<le> parametric99 (calculatePortfolioVaR portfolio prices config) \<longleftrightarrow>
         (sample_mean (valid_returns config portfolio prices)
            + normCdf_real 0.01 * sample_std (valid_returns config portfolio prices)) * v \<le> 0) \<and>
      (Fin 0 \<le> historical95 (calculatePortfolioVaR portfolio prices config) \<longleftrightarrow>
         sort (valid_returns config portfolio prices)
           ! nat \<lfloor>0.05 * real (length (valid_returns config portfolio prices))\<rfloor> * v \<le> 0) \<and>
      (Fin 0 \<le> historical99 (calculatePortfolioVaR portfolio prices config) \<longleftrightarrow>
         sort (valid_returns config portfolio prices)
           ! nat \<lfloor>0.01 * real (length (valid_returns config portfolio prices))\<rfloor> * v \<le> 0))"
proof (intro conjI impI)
  assume "portfolio = [] \<or> length prices < 2 \<or> length (valid_returns config portfolio prices) < 2"
  then show "calculatePortfolioVaR portfolio prices config =
        \<lparr>parametric95 = Fin 0, parametric99 = Fin 0, historical95 = Fin 0, historical99 = Fin 0\<rparr>"
    by (rule VaR_early)
next
  assume a: "portfolio \<noteq> [] \<and> 2 \<le> length (valid_returns config portfolio prices) \<and>
    last (value_series config portfolio prices) = Fin v"
  then have u: "calculatePortfolioVaR portfolio prices config = 
    \<lparr>parametric95 =
       - (Fin (sample_mean (valid_returns config portfolio prices))
          + normCdf (Fin 0.05) * Fin (sample_std (valid_returns config portfolio prices)))
         * Fin v,
     parametric99 =
       - (Fin (sample_mean (valid_returns config portfolio prices))
          + normCdf (Fin 0.01) * Fin (sample_std (valid_returns config portfolio prices)))
         * Fin v,
     historical95 =
       - Fin (sort (valid_returns config portfolio prices)
               ! nat \<lfloor>0.05 * real (length (valid_returns config portfolio prices))\<rfloor>)
         * Fin v,
     historical99 =
       - Fin (sort (valid_returns config portfolio prices)
               ! nat \<lfloor>0.01 * real (length (valid_returns config portfolio prices))\<rfloor>)
         * Fin v\<rparr>"
    using VaR_unfold [of portfolio config prices] by simp
  show "Fin 0 \<le> parametric95 (calculatePortfolioVaR portfolio prices config) \<longleftrightarrow>
         (sample_mean (valid_returns config portfolio prices)
            + normCdf_real 0.05 * sample_std (valid_returns config portfolio prices)) * v \<le> 0"
    unfolding u normCdf_Fin by (simp only: VaRResult.simps neg_times_Fin_nonneg)
  show "Fin 0 \<le> parametric99 (calculatePortfolioVaR portfolio prices config) \<longleftrightarrow>
         (sample_mean (valid_returns config portfolio prices)
            + normCdf_real 0.01 * sample_std (valid_returns config portfolio prices)) * v \<le> 0"
    unfolding u normCdf_Fin by (simp only: VaRResult.simps neg_times_Fin_nonneg)
  show "Fin 0 \<le> historical95 (calculatePortfolioVaR portfolio prices config) \<longleftrightarrow>
         sort (valid_returns config portfolio prices)
           ! nat \<lfloor>0.05 * real (length (valid_returns config portfolio prices))\<rfloor> * v \<le> 0"
    unfolding u by simp
  show "Fin 0 \<le> historical99 (calculatePortfolioVaR portfolio prices config) \<longleftrightarrow>
         sort (valid_returns config portfolio prices)
           ! nat \<lfloor>0.01 * real (length (valid_returns config portfolio prices))\<rfloor> * v \<le> 0"
    unfolding u by simp
qed

theorem var_sign_witness:
  "calculatePortfolioVaR [] [Fin 1, Fin 2, Fin 4] \<lparr>riskFreeRate = Fin 7, lotSize = Fin 1\<rparr> =
     \<lparr>parametric95 = Fin 0, parametric99 = Fin 0, historical95 = Fin 0, historical99 = Fin 0\<rparr> \<and>
   [stock_position 1] \<noteq> [] \<and>
   valid_returns \<lparr>riskFreeRate = Fin 7, lotSize = Fin 1\<rparr> [stock_position 1] [Fin 4, Fin 2, Fin 1]
     = [- 1 / 2, - 1 / 2] \<and>
   last (value_series \<lparr>riskFreeRate = Fin 7, lotSize = Fin 1\<rparr> [stock_position 1]
           [Fin 4, Fin 2, Fin 1]) = Fin 1 \<and>
   Fin 0 \<le> parametric95 (calculatePortfolioVaR [stock_position 1] [Fin 4, Fin 2, Fin 1]
                            \<lparr>riskFreeRate = Fin 7, lotSize = Fin 1\<rparr>) \<and>
   Fin 0 \<le> parametric99 (calculatePortfolioVaR [stock_position 1] [Fin 4, Fin 2, Fin 1]
                            \<lparr>riskFreeRate = Fin 7, lotSize = Fin 1\<rparr>) \<and>
   Fin 0 \<le> historical95 (calculatePortfolioVaR [stock_position 1] [Fin 4, Fin 2, Fin 1]
                            \<lparr>riskFreeRate = Fin 7, lotSize = Fin 1\<rparr>) \<and>
   Fin 0 \<le> historical99 (calculatePortfolioVaR [stock_position 1] [Fin 4, Fin 2, Fin 1]
                            \<lparr>riskFreeRate = Fin 7, lotSize = Fin 1\<rparr>)"
  using var_sign [of "[]" "[Fin 1, Fin 2, Fin 4]" "\<lparr>riskFreeRate = Fin 7, lotSize = Fin 1\<rparr>" 0]
    var_sign [of "[stock_position 1]" "[Fin 4, Fin 2, Fin 1]"
      "\<lparr>riskFreeRate = Fin 7, lotSize = Fin 1\<rparr>" 1]
  by (simp add: stock_falling sample_mean_def sample_std_def)

text \<open>
  The claim as stated, all four fields at least 0 for every input, fails for one unit of
  the underlying (the position the hedged value at risk adds) on the rising prices
  1, 2, 4: both returns are 1, the last value is 4 and all four fields are -4.
\<close>

theorem var_negative_counterexample:
  "parametric95 (calculatePortfolioVaR [stock_position 1] [Fin 1, Fin 2, Fin 4]
                   \<lparr>riskFreeRate = Fin 7, lotSize = Fin 1\<rparr>) < Fin 0 \<and>
   parametric99 (calculatePortfolioVaR [stock_position 1] [Fin 1, Fin 2, Fin 4]
                   \<lparr>riskFreeRate = Fin 7, lotSize = Fin 1\<rparr>) < Fin 0 \<and>
   historical95 (calculatePortfolioVaR [stock_position 1] [Fin 1, Fin 2, Fin 4]
                   \<lparr>riskFreeRate = Fin 7, lotSize = Fin 1\<rparr>) < Fin 0 \<and>
   historical99 (calculatePortfolioVaR [stock_position 1] [Fin 1, Fin 2, Fin 4]
                   \<lparr>riskFreeRate = Fin 7, lotSize = Fin 1\<rparr>) < Fin 0"
proof -
  have ne: "[stock_position 1] \<noteq> []" by simp
  have len: "2 \<le> length (valid_returns \<lparr>riskFreeRate = Fin 7, lotSize = Fin 1\<rparr>
                [stock_position 1] [Fin 1, Fin 2, Fin 4])"
    by (simp add: stock_rising)
  show ?thesis
    unfolding VaR_unfold [OF ne len]
    by (simp add: stock_rising sample_mean_def sample_std_def normCdf_Fin)
qed

subsection \<open>Spot-shock scenarios\<close>

lemma jsnum_mult_one: "a * Fin 1 = a"
  by (cases a) simp_all

lemma delta_foldl_greeks:
  "delta (foldl (\<lambda>acc pos.
        \<lparr>delta = delta acc + quantity pos * delta (greeks (option pos)),
         gamma = gamma acc + quantity pos * gamma (greeks (option pos)),
         vega = vega acc + quantity pos * vega (greeks (option pos)),
         theta = theta acc + quantity pos * theta (greeks (option pos)),
         rho = rho acc + quantity pos * rho (greeks (option pos))\<rparr>) acc portfolio)
   = foldl (\<lambda>s pos. s + quantity pos * delta (greeks (option pos))) (delta acc) portfolio"
  by (induction portfolio arbitrary: acc) simp_all

lemma delta_calculatePortfolioGreeks:
  "delta (calculatePortfolioGreeks portfolio) = portfolio_delta portfolio"
  unfolding calculatePortfolioGreeks_def delta_foldl_greeks portfolio_delta_def
  by (simp add: foldl_jsum)

lemma hedgePortfolio_delta: "hedgePortfolio portfolio lot = - portfolio_delta portfolio * lot"
  by (simp add: hedgePortfolio_def Let_def delta_calculatePortfolioGreeks)

text \<open>
  C8. \<open>calculatePnLScenarios\<close> returns five scenarios, for the shocks -2%, -1%, 0%, +1%
  and +2% of the last price, in this order. In each, the unhedged P&L is the portfolio
  value repriced at the shocked spot (same implied volatility, maturity and rate per
  option) minus the current mark \<open>sum of quantity * bsmPrice\<close>, times the lot size; the
  delta-hedged P&L adds \<open>-portfolioDelta * (newPrice - lastPrice)\<close>, the hedge shares being
  those of \<open>hedgePortfolio\<close> at lot size 1, where \<open>hedgePortfolio\<close> gives
  \<open>-portfolioDelta * lotSize\<close>.
\<close>

theorem pnl_scenarios:
  "calculatePnLScenarios portfolio lastPrice config =
     map (\<lambda>change.
        \<lparr>scenario = change,
         pnlUnhedged =
           (repriced_value (riskFreeRate config) portfolio (lastPrice * (Fin 1 + Fin change))
              - current_mark portfolio) * lotSize config,
         pnlDeltaHedged =
           (repriced_value (riskFreeRate config) portfolio (lastPrice * (Fin 1 + Fin change))
              - current_mark portfolio) * lotSize config
           + (- portfolio_delta portfolio) * (lastPrice * (Fin 1 + Fin change) - lastPrice)\<rparr>)
       [- 2 / 100, - 1 / 100, 0, 1 / 100, 2 / 100] \<and>
   hedgePortfolio portfolio (Fin 1) = - portfolio_delta portfolio \<and>
   (\<forall>lot. hedgePortfolio portfolio lot = - portfolio_delta portfolio * lot)"
proof -
  have cur: "foldl (\<lambda>sum pos. sum + quantity pos * bsmPrice (option pos)) (Fin 0) portfolio
               = current_mark portfolio"
    by (simp add: foldl_jsum current_mark_def)
  have new: "foldl (\<lambda>sum pos. sum + quantity pos *
                 price (bsm S (strike (option pos)) (maturity (option pos) / Fin 252)
                          (iv (option pos)) (riskFreeRate config / Fin 100) (type (option pos))))
               (Fin 0) portfolio
             = repriced_value (riskFreeRate config) portfolio S" for S
    by (simp add: foldl_jsum repriced_value_def position_price_def)
  have h1: "hedgePortfolio portfolio (Fin 1) = - portfolio_delta portfolio"
    by (simp add: hedgePortfolio_delta jsnum_mult_one)
  have "calculatePnLScenarios portfolio lastPrice config =
     map (\<lambda>change.
        \<lparr>scenario = change,
         pnlUnhedged =
           (repriced_value (riskFreeRate config) portfolio (lastPrice * (Fin 1 + Fin change))
              - current_mark portfolio) * lotSize config,
         pnlDeltaHedged =
           (repriced_value (riskFreeRate config) portfolio (lastPrice * (Fin 1 + Fin change))
              - current_mark portfolio) * lotSize config
           + (- portfolio_delta portfolio) * (lastPrice * (Fin 1 + Fin change) - lastPrice)\<rparr>)
       [- 2 / 100, - 1 / 100, 0, 1 / 100, 2 / 100]"
    unfolding calculatePnLScenarios_def cur h1
    by (simp add: Let_def new)
  then show ?thesis using h1 hedgePortfolio_delta by blast
qed

theorem pnl_scenarios_witness:
  "map scenario (calculatePnLScenarios [stock_position 2] (Fin 100) \<lparr>riskFreeRate = Fin 7, lotSize = Fin 50\<rparr>)
     = [- 2 / 100, - 1 / 100, 0, 1 / 100, 2 / 100] \<and>
   map pnlUnhedged (calculatePnLScenarios [stock_position 2] (Fin 100) \<lparr>riskFreeRate = Fin 7, lotSize = Fin 50\<rparr>)
     = [Fin 9700, Fin 9800, Fin 9900, Fin 10000, Fin 10100] \<and>
   map pnlDeltaHedged (calculatePnLScenarios [stock_position 2] (Fin 100) \<lparr>riskFreeRate = Fin 7, lotSize = Fin 50\<rparr>)
     = [Fin 9704, Fin 9802, Fin 9900, Fin 9998, Fin 10096]"
proof -
  have d: "portfolio_delta [stock_position 2] = Fin 2"
    by (simp add: portfolio_delta_def jsum_def stock_position_def)
  have c: "current_mark [stock_position 2] = Fin 2"
    by (simp add: current_mark_def jsum_def stock_position_def)
  have r: "repriced_value (Fin 7) [stock_position 2] (Fin s) = Fin (2 * max 0 s)" for s
    by (simp add: repriced_value_def position_price_def jsum_def stock_position_def bsm_def
          minus_jsnum_def max_def)
  from pnl_scenarios [of "[stock_position 2]" "Fin 100" "\<lparr>riskFreeRate = Fin 7, lotSize = Fin 50\<rparr>"]
  show ?thesis by (simp add: d c r minus_jsnum_def)
qed

end
